theory Spec2Isabelle
  imports Complex_Main "HOL-Library.Word"
begin

section \<open>CHGNet: a shallow embedding of \<open>chgnet/model/model.py\<close>\<close>

text \<open>
  Tensors of floating-point numbers are modelled over the reals (rounding is not
  modelled); index tensors and Python integers are modelled as \<open>int\<close>, except in
  \<open>split\<close>, whose running index is a 64-bit tensor value and is modelled as a
  64-bit word. Exceptions raised by the source are values of the type \<open>py_error\<close>.
\<close>

datatype py_error = AssertionError | IndexError | RuntimeError

subsection \<open>\<open>CHGNet.split\<close>\<close>

text \<open>
  Python's slice bound on a sequence of length \<open>L\<close>: a negative bound counts from the
  end, and every bound is clipped into \<open>[0, L]\<close>.
\<close>

definition py_slice_bound :: "nat \<Rightarrow> int \<Rightarrow> nat" where
  "py_slice_bound L i = (if i < 0 then nat (max 0 (i + int L)) else min L (nat i))"

definition py_slice :: "'a list \<Rightarrow> int \<Rightarrow> int \<Rightarrow> 'a list" where
  "py_slice x a b =
     (let lo = py_slice_bound (length x) a; hi = py_slice_bound (length x) b
      in take (hi - lo) (drop lo x))"

text \<open>
  The loop \<open>for i in n: result.append(x[start : start + i]); start += i\<close>, with the
  loop state \<open>(start, result)\<close> passed explicitly. The counts \<open>n\<close> are a tensor of
  64-bit integers (the atom counts come from \<open>torch.bincount\<close>), so from the first
  addition on \<open>start\<close> and \<open>start + i\<close> are 64-bit tensor values: the additions wrap
  around, and a slice bound is the signed value of the tensor.
\<close>

fun split_loop ::
  "'a list \<Rightarrow> 64 word \<Rightarrow> 'a list list \<Rightarrow> 64 word list \<Rightarrow> 64 word \<times> 'a list list" where
  "split_loop x start result [] = (start, result)"
| "split_loop x start result (i # n) =
     split_loop x (start + i) (result @ [py_slice x (sint start) (sint (start + i))]) n"

definition split :: "'a list \<Rightarrow> 64 word list \<Rightarrow> py_error + 'a list list" where
  "split x n =
     (case split_loop x 0 [] n of
        (start, result) \<Rightarrow>
          if sint start = int (length x) then Inr result else Inl AssertionError)"

subsection \<open>\<open>AngleEncoder.__init__\<close>\<close>

record 'f AngleEncoder =
  fourier_expansion :: 'f

text \<open>
  The constructor of \<open>Fourier\<close> (module \<open>chgnet.model.basis\<close>) is a parameter. For an
  even \<open>num_angular - 1\<close> the quotient \<open>int((num_angular - 1) / 2)\<close> is the exact half.
\<close>

definition AngleEncoder_init ::
  "(int \<Rightarrow> bool \<Rightarrow> py_error + 'f) \<Rightarrow> int \<Rightarrow> bool \<Rightarrow> py_error + 'f AngleEncoder" where
  "AngleEncoder_init Fourier num_angular learnable =
     (if (num_angular - 1) mod 2 = 0
      then (let circular_harmonics_order = (num_angular - 1) div 2
            in case Fourier circular_harmonics_order learnable of
                 Inl e \<Rightarrow> Inl e
               | Inr f \<Rightarrow> Inr \<lparr>fourier_expansion = f\<rparr>)
      else Inl AssertionError)"

subsection \<open>Tensor operations\<close>

text \<open>
  A vector is a list of reals and a matrix a list of rows. Tensors are taken to be
  well shaped: shape mismatches, which the tensor library reports as errors, are
  outside the model. Index errors are modelled.
\<close>

type_synonym vec = "real list"
type_synonym mat = "real list list"

definition dot :: "vec \<Rightarrow> vec \<Rightarrow> real" where
  "dot u v = sum_list (map2 (*) u v)"

definition vec_add :: "vec \<Rightarrow> vec \<Rightarrow> vec" where
  "vec_add u v = map2 (+) u v"

definition vec_sub :: "vec \<Rightarrow> vec \<Rightarrow> vec" where
  "vec_sub u v = map2 (-) u v"

definition vec_norm :: "vec \<Rightarrow> real" where
  "vec_norm v = sqrt (dot v v)"

definition mat_add :: "mat \<Rightarrow> mat \<Rightarrow> mat" where
  "mat_add A B = map2 vec_add A B"

definition mat_mul :: "mat \<Rightarrow> mat \<Rightarrow> mat" where
  "mat_mul A B = map (\<lambda>r. map (dot r) (transpose B)) A"

definition eye3 :: mat where
  "eye3 = [[1, 0, 0], [0, 1, 0], [0, 0, 1]]"

definition zeros3 :: mat where
  "zeros3 = [[0, 0, 0], [0, 0, 0], [0, 0, 0]]"

definition det3 :: "mat \<Rightarrow> real" where
  "det3 M =
     M ! 0 ! 0 * (M ! 1 ! 1 * M ! 2 ! 2 - M ! 1 ! 2 * M ! 2 ! 1)
     - M ! 0 ! 1 * (M ! 1 ! 0 * M ! 2 ! 2 - M ! 1 ! 2 * M ! 2 ! 0)
     + M ! 0 ! 2 * (M ! 1 ! 0 * M ! 2 ! 1 - M ! 1 ! 1 * M ! 2 ! 0)"

fun map_err :: "('a \<Rightarrow> py_error + 'b) \<Rightarrow> 'a list \<Rightarrow> py_error + 'b list" where
  "map_err f [] = Inr []"
| "map_err f (x # xs) =
     (case f x of
        Inl e \<Rightarrow> Inl e
      | Inr y \<Rightarrow> (case map_err f xs of Inl e \<Rightarrow> Inl e | Inr ys \<Rightarrow> Inr (y # ys)))"

text \<open>
  Indexing a tensor by an index tensor, \<open>t[idx]\<close>: a negative index counts from the
  end, an index outside \<open>[-n, n)\<close> raises.
\<close>

definition tensor_getitem :: "'a list \<Rightarrow> int list \<Rightarrow> py_error + 'a list" where
  "tensor_getitem t idx =
     map_err (\<lambda>i. let n = int (length t); j = (if i < 0 then i + n else i)
                   in if 0 \<le> j \<and> j < n then Inr (t ! nat j) else Inl IndexError) idx"

text \<open>\<open>torch.index_select(t, 0, idx)\<close>: every index must lie in \<open>[0, n)\<close>.\<close>

definition index_select :: "'a list \<Rightarrow> int list \<Rightarrow> py_error + 'a list" where
  "index_select t idx =
     map_err (\<lambda>i. if 0 \<le> i \<and> i < int (length t) then Inr (t ! nat i) else Inl IndexError) idx"

subsection \<open>\<open>BondEncoder.forward\<close>\<close>

text \<open>
  \<open>RadialBessel\<close> (module \<open>chgnet.model.basis\<close>) is a parameter: each of the two
  expansions maps one bond length to one row of basis values.
\<close>

record BondEncoder =
  rbf_expansion_ag :: "real \<Rightarrow> vec"
  rbf_expansion_bg :: "real \<Rightarrow> vec"

definition BondEncoder_forward ::
  "BondEncoder \<Rightarrow> mat \<Rightarrow> mat \<Rightarrow> int list \<Rightarrow> mat \<Rightarrow> mat \<Rightarrow> py_error + (mat \<times> mat \<times> mat)" where
  "BondEncoder_forward self center neighbor undirected2directed image' lattice =
     (let neighbor = map2 vec_add neighbor (mat_mul image' lattice);
          bond_vectors = map2 vec_sub center neighbor;
          bond_lengths = map vec_norm bond_vectors;
          bond_vectors = map2 (\<lambda>v l. map (\<lambda>x. x / l) v) bond_vectors bond_lengths
      in case index_select bond_lengths undirected2directed of
           Inl e \<Rightarrow> Inl e
         | Inr undirected_bond_lengths \<Rightarrow>
             Inr (map (rbf_expansion_ag self) undirected_bond_lengths,
                  map (rbf_expansion_bg self) undirected_bond_lengths,
                  bond_vectors))"

subsection \<open>\<open>AngleEncoder.forward\<close>\<close>

text \<open>
  \<open>torch.acos\<close> returns NaN outside \<open>[-1, 1]\<close>; NaN is the value \<open>None\<close>. The
  Fourier expansion (module \<open>chgnet.model.basis\<close>) is the field \<open>fourier_expansion\<close>
  of the encoder, a function from an angle to a row of basis values; a NaN angle gives
  a NaN row.
\<close>

definition torch_acos :: "real \<Rightarrow> real option" where
  "torch_acos x = (if - 1 \<le> x \<and> x \<le> 1 then Some (arccos x) else None)"

definition cosine_ij :: "mat \<Rightarrow> mat \<Rightarrow> real list" where
  "cosine_ij bond_i bond_j = map (\<lambda>d. d * (1 - 0.000001)) (map2 dot bond_i bond_j)"

definition AngleEncoder_forward ::
  "(real \<Rightarrow> vec) AngleEncoder \<Rightarrow> mat \<Rightarrow> mat \<Rightarrow> vec option list" where
  "AngleEncoder_forward self bond_i bond_j =
     (let angle = map torch_acos (cosine_ij bond_i bond_j)
      in map (map_option (fourier_expansion self)) angle)"

subsection \<open>The readout selection of \<open>CHGNet.__init__\<close>\<close>

text \<open>
  The pooling layers (module \<open>chgnet.model.layers\<close>) with their constructor arguments:
  \<open>GraphPooling(average)\<close> and \<open>GraphAttentionReadOut(atom_fea_dim, num_head, average)\<close>.
\<close>

datatype pooling_layer =
  GraphPooling bool
| GraphAttentionReadOut int int bool

record readout =
  read_out_type :: string
  input_dim :: int
  pooling_layer :: pooling_layer

definition CHGNet_init_readout :: "int \<Rightarrow> string \<Rightarrow> bool \<Rightarrow> int \<Rightarrow> readout" where
  "CHGNet_init_readout atom_fea_dim read_out mlp_first num_heads =
     (if mlp_first
      then \<lparr>read_out_type = ''sum'', input_dim = atom_fea_dim,
            pooling_layer = GraphPooling False\<rparr>
      else if read_out \<in> set [''attn'', ''weighted'']
      then \<lparr>read_out_type = ''attn'', input_dim = atom_fea_dim * num_heads,
            pooling_layer = GraphAttentionReadOut atom_fea_dim num_heads True\<rparr>
      else \<lparr>read_out_type = ''ave'', input_dim = atom_fea_dim,
            pooling_layer = GraphPooling True\<rparr>)"

subsection \<open>\<open>AtomEmbedding\<close>\<close>

text \<open>
  \<open>nn.Embedding(max_num_elements, atom_feature_dim)\<close> is a table with one row per
  element; the initial rows are a parameter. Looking an index up outside
  \<open>[0, max_num_elements)\<close> raises.
\<close>

record AtomEmbedding =
  embedding :: mat

definition AtomEmbedding_init :: "(nat \<Rightarrow> vec) \<Rightarrow> nat \<Rightarrow> AtomEmbedding" where
  "AtomEmbedding_init rows max_num_elements = \<lparr>embedding = map rows [0..<max_num_elements]\<rparr>"

definition max_num_elements_default :: nat where
  "max_num_elements_default = 94"

definition AtomEmbedding_forward :: "AtomEmbedding \<Rightarrow> int list \<Rightarrow> py_error + mat" where
  "AtomEmbedding_forward self atomic_numbers =
     map_err (\<lambda>i. if 0 \<le> i \<and> i < int (length (embedding self))
                   then Inr (embedding self ! nat i) else Inl IndexError) atomic_numbers"

subsection \<open>\<open>BatchedGraph.from_graphs\<close>\<close>

text \<open>
  \<open>Crystal_Graph\<close> (module \<open>chgnet.graph\<close>) with the fields that \<open>from_graphs\<close>
  reads. A row of \<open>atom_graph\<close> is a pair (center, neighbor); a row of \<open>bond_graph\<close>
  has five columns.
\<close>

record Crystal_Graph =
  atomic_number :: "int list"
  atom_frac_coord :: mat
  lattice :: mat
  atom_graph :: "(int \<times> int) list"
  undirected2directed :: "int list"
  directed2undirected :: "int list"
  neighbor_image :: mat
  bond_graph :: "(int \<times> int \<times> int \<times> int \<times> int) list"

record 'ab BatchedGraph =
  atomic_numbers :: "int list"
  bond_bases_ag :: mat
  bond_bases_bg :: mat
  angle_bases :: "'ab list"
  batched_atom_graph :: "(int \<times> int) list"
  batched_bond_graph :: "(int \<times> int \<times> int) list"
  atom_owners :: "int list"
  directed2undirected :: "int list"
  atom_positions :: "mat list"
  strains :: "mat option list"
  volumes :: "real list"

text \<open>
  The local variables of \<open>from_graphs\<close>: the lists that the loop appends to, one
  entry per structure, and the two running offsets.
\<close>

record 'ab from_graphs_state =
  l_atomic_numbers :: "int list list"
  l_atom_positions :: "mat list"
  l_strains :: "mat option list"
  l_volumes :: "real list"
  l_bond_bases_ag :: "mat list"
  l_bond_bases_bg :: "mat list"
  l_angle_bases :: "'ab list list"
  l_batched_atom_graph :: "(int \<times> int) list list"
  l_batched_bond_graph :: "(int \<times> int \<times> int) list list"
  l_directed2undirected :: "int list list"
  l_atom_owners :: "int list list"
  atom_offset_idx :: int
  n_undirected :: int

definition from_graphs_init :: "'ab from_graphs_state" where
  "from_graphs_init =
     \<lparr>l_atomic_numbers = [], l_atom_positions = [], l_strains = [], l_volumes = [],
      l_bond_bases_ag = [], l_bond_bases_bg = [], l_angle_bases = [],
      l_batched_atom_graph = [], l_batched_bond_graph = [], l_directed2undirected = [],
      l_atom_owners = [], atom_offset_idx = 0, n_undirected = 0\<rparr>"

text \<open>
  The angle part of one loop iteration. It is skipped for a structure without angles;
  otherwise it appends the angle basis and a bond-graph block whose three columns are
  columns 0, 1 and 3 of the structure's \<open>bond_graph\<close>, shifted by the running offsets.
\<close>

definition from_graphs_angles ::
  "(mat \<Rightarrow> mat \<Rightarrow> 'ab list) \<Rightarrow> Crystal_Graph \<Rightarrow> mat \<Rightarrow> 'ab from_graphs_state \<Rightarrow>
   py_error + 'ab from_graphs_state" where
  "from_graphs_angles angle_basis_expansion graph bond_vectors s =
     (if length (bond_graph graph) \<noteq> 0
      then (case index_select bond_vectors (map (\<lambda>(c0, c1, c2, c3, c4). c2) (bond_graph graph)) of
              Inl e \<Rightarrow> Inl e
            | Inr bond_vecs_i \<Rightarrow>
               (case index_select bond_vectors (map (\<lambda>(c0, c1, c2, c3, c4). c4) (bond_graph graph)) of
                  Inl e \<Rightarrow> Inl e
                | Inr bond_vecs_j \<Rightarrow>
                    Inr (s\<lparr>l_angle_bases :=
                             l_angle_bases s @ [angle_basis_expansion bond_vecs_i bond_vecs_j],
                           l_batched_bond_graph :=
                             l_batched_bond_graph s @
                               [map (\<lambda>(c0, c1, c2, c3, c4).
                                       (c0 + atom_offset_idx s, c1 + n_undirected s, c3 + n_undirected s))
                                    (bond_graph graph)]\<rparr>)))
      else Inr s)"

text \<open>One iteration of the loop over \<open>enumerate(graphs)\<close>.\<close>

definition from_graphs_step ::
  "(mat \<Rightarrow> mat \<Rightarrow> int list \<Rightarrow> mat \<Rightarrow> mat \<Rightarrow> py_error + (mat \<times> mat \<times> mat)) \<Rightarrow>
   (mat \<Rightarrow> mat \<Rightarrow> 'ab list) \<Rightarrow> bool \<Rightarrow> nat \<Rightarrow> Crystal_Graph \<Rightarrow> 'ab from_graphs_state \<Rightarrow>
   py_error + 'ab from_graphs_state" where
  "from_graphs_step bond_basis_expansion angle_basis_expansion compute_stress graph_idx graph s =
     (let n_atom = length (atomic_number graph);
          strain = (if compute_stress then Some zeros3 else None);
          lattice = (if compute_stress then mat_mul (lattice graph) (mat_add eye3 zeros3)
                     else lattice graph);
          atom_cart_coords = mat_mul (atom_frac_coord graph) lattice
      in case tensor_getitem atom_cart_coords (map fst (atom_graph graph)) of
           Inl e \<Rightarrow> Inl e
         | Inr center \<Rightarrow>
        (case tensor_getitem atom_cart_coords (map snd (atom_graph graph)) of
           Inl e \<Rightarrow> Inl e
         | Inr neighbor \<Rightarrow>
        (case bond_basis_expansion center neighbor (undirected2directed graph)
                (neighbor_image graph) lattice of
           Inl e \<Rightarrow> Inl e
         | Inr (bond_basis_ag, bond_basis_bg, bond_vectors) \<Rightarrow>
        (case from_graphs_angles angle_basis_expansion graph bond_vectors
                (s\<lparr>l_atomic_numbers := l_atomic_numbers s @ [atomic_number graph],
                   l_volumes := l_volumes s @ [det3 lattice],
                   l_strains := l_strains s @ [strain],
                   l_atom_positions := l_atom_positions s @ [atom_cart_coords],
                   l_bond_bases_ag := l_bond_bases_ag s @ [bond_basis_ag],
                   l_bond_bases_bg := l_bond_bases_bg s @ [bond_basis_bg],
                   l_batched_atom_graph := l_batched_atom_graph s @
                     [map (\<lambda>(a, b). (a + atom_offset_idx s, b + atom_offset_idx s))
                          (atom_graph graph)],
                   l_directed2undirected := l_directed2undirected s @
                     [map (\<lambda>i. i + n_undirected s) (Crystal_Graph.directed2undirected graph)]\<rparr>) of
           Inl e \<Rightarrow> Inl e
         | Inr s' \<Rightarrow>
             Inr (s'\<lparr>l_atom_owners := l_atom_owners s' @ [replicate n_atom (int graph_idx)],
                     atom_offset_idx := atom_offset_idx s' + int n_atom,
                     n_undirected := n_undirected s' + int (length bond_basis_ag)\<rparr>)))))"

fun from_graphs_loop ::
  "(mat \<Rightarrow> mat \<Rightarrow> int list \<Rightarrow> mat \<Rightarrow> mat \<Rightarrow> py_error + (mat \<times> mat \<times> mat)) \<Rightarrow>
   (mat \<Rightarrow> mat \<Rightarrow> 'ab list) \<Rightarrow> bool \<Rightarrow> nat \<Rightarrow> Crystal_Graph list \<Rightarrow> 'ab from_graphs_state \<Rightarrow>
   py_error + 'ab from_graphs_state" where
  "from_graphs_loop bbe abe compute_stress graph_idx [] s = Inr s"
| "from_graphs_loop bbe abe compute_stress graph_idx (graph # graphs) s =
     (case from_graphs_step bbe abe compute_stress graph_idx graph s of
        Inl e \<Rightarrow> Inl e
      | Inr s' \<Rightarrow> from_graphs_loop bbe abe compute_stress (Suc graph_idx) graphs s')"

text \<open>
  After the loop the lists are concatenated. \<open>torch.cat\<close> raises on an empty list of
  tensors, which happens exactly when \<open>graphs\<close> is empty; the angle basis and the bond
  graph fall back to an empty tensor instead.
\<close>

definition from_graphs ::
  "(mat \<Rightarrow> mat \<Rightarrow> int list \<Rightarrow> mat \<Rightarrow> mat \<Rightarrow> py_error + (mat \<times> mat \<times> mat)) \<Rightarrow>
   (mat \<Rightarrow> mat \<Rightarrow> 'ab list) \<Rightarrow> bool \<Rightarrow> Crystal_Graph list \<Rightarrow> py_error + 'ab BatchedGraph" where
  "from_graphs bond_basis_expansion angle_basis_expansion compute_stress graphs =
     (case from_graphs_loop bond_basis_expansion angle_basis_expansion compute_stress 0 graphs
             from_graphs_init of
        Inl e \<Rightarrow> Inl e
      | Inr s \<Rightarrow>
          if l_atomic_numbers s = [] then Inl RuntimeError
          else Inr \<lparr>atomic_numbers = concat (l_atomic_numbers s),
                    bond_bases_ag = concat (l_bond_bases_ag s),
                    bond_bases_bg = concat (l_bond_bases_bg s),
                    angle_bases = (if length (l_angle_bases s) \<noteq> 0
                                   then concat (l_angle_bases s) else []),
                    batched_atom_graph = concat (l_batched_atom_graph s),
                    batched_bond_graph = (if l_batched_bond_graph s \<noteq> []
                                          then concat (l_batched_bond_graph s) else []),
                    atom_owners = concat (l_atom_owners s),
                    directed2undirected = concat (l_directed2undirected s),
                    atom_positions = l_atom_positions s,
                    strains = l_strains s,
                    volumes = l_volumes s\<rparr>)"

subsection \<open>\<open>CHGNet._compute\<close> and \<open>CHGNet.forward\<close>\<close>

text \<open>
  The prediction is a dictionary from keys to tensors or lists of tensors.
\<close>

datatype pvalue =
  IntTensor "int list"
| Tensor1 vec
| Tensor2 mat
| TensorList1 "vec list"
| TensorList2 "mat list"

type_synonym prediction = "string \<rightharpoonup> pvalue"

text \<open>
  \<open>torch.bincount\<close> counts the occurrences of \<open>0, \<dots>, max\<close> and raises on a negative
  entry. \<open>torch.split(x, sizes)\<close> cuts \<open>x\<close> into consecutive pieces of the given sizes
  and raises unless the sizes are non-negative and sum to the length of \<open>x\<close>.
\<close>

definition torch_bincount :: "int list \<Rightarrow> py_error + int list" where
  "torch_bincount xs =
     (if \<exists>x\<in>set xs. x < 0 then Inl RuntimeError
      else Inr (map (\<lambda>v. int (count_list xs (int v)))
                    [0..<(case xs of [] \<Rightarrow> 0 | _ \<Rightarrow> nat (fold max xs 0) + 1)]))"

fun chunks :: "'a list \<Rightarrow> nat list \<Rightarrow> 'a list list" where
  "chunks x [] = []"
| "chunks x (n # ns) = take n x # chunks (drop n x) ns"

definition torch_split :: "'a list \<Rightarrow> int list \<Rightarrow> py_error + 'a list list" where
  "torch_split x sizes =
     (if (\<forall>n\<in>set sizes. 0 \<le> n) \<and> sum_list sizes = int (length x)
      then Inr (chunks x (map nat sizes)) else Inl RuntimeError)"

text \<open>\<open>nn.Linear\<close>: one output per row of the weight matrix, plus the bias if present.\<close>

record nn_Linear =
  weight :: mat
  bias :: "vec option"

definition nn_Linear_forward :: "nn_Linear \<Rightarrow> mat \<Rightarrow> mat" where
  "nn_Linear_forward l X =
     map (\<lambda>x. case bias l of
                 None \<Rightarrow> map (dot x) (weight l)
               | Some b \<Rightarrow> map2 (+) (map (dot x) (weight l)) b) X"

text \<open>
  The convolution, pooling and readout layers (modules \<open>chgnet.model.layers\<close> and
  \<open>chgnet.model.functions\<close>) are parameters: functions from their keyword arguments,
  in the order of the call, to the updated features.
\<close>

type_synonym AtomConv = "mat \<Rightarrow> mat \<Rightarrow> mat \<Rightarrow> (int \<times> int) list \<Rightarrow> int list \<Rightarrow> mat"
type_synonym BondConv = "mat \<Rightarrow> mat \<Rightarrow> mat \<Rightarrow> mat \<Rightarrow> (int \<times> int \<times> int) list \<Rightarrow> mat"
type_synonym AngleUpdate = "mat \<Rightarrow> mat \<Rightarrow> mat \<Rightarrow> (int \<times> int \<times> int) list \<Rightarrow> mat"

record CHGNet =
  n_conv :: int
  is_intensive :: bool
  mlp_first :: bool
  composition_model :: "(Crystal_Graph list \<Rightarrow> vec) option"
  atom_embedding :: AtomEmbedding
  bond_basis_expansion :: BondEncoder
  bond_embedding :: "mat \<Rightarrow> mat"
  bond_weights_ag :: "mat \<Rightarrow> mat"
  bond_weights_bg :: "mat \<Rightarrow> mat"
  angle_basis_expansion :: "(real \<Rightarrow> vec) AngleEncoder"
  angle_embedding :: "vec option list \<Rightarrow> mat"
  atom_conv_layers :: "AtomConv list"
  bond_conv_layers :: "BondConv option list"
  angle_layers :: "AngleUpdate option list"
  site_wise :: nn_Linear
  readout_norm :: "(mat \<Rightarrow> mat) option"
  pooling :: "mat \<Rightarrow> int list \<Rightarrow> mat"
  mlp :: "mat \<Rightarrow> mat"

text \<open>
  The side outputs taken inside the loop when \<open>idx == self.n_conv - 2\<close>: the atom
  features split per structure, and the magnetic moments.
\<close>

definition side_outputs ::
  "CHGNet \<Rightarrow> bool \<Rightarrow> bool \<Rightarrow> int list \<Rightarrow> nat \<Rightarrow> mat \<Rightarrow> prediction \<Rightarrow> py_error + prediction" where
  "side_outputs self site_wise' return_atom_feas atoms_per_graph idx atom_feas prediction =
     (if int idx = n_conv self - 2
      then (case (if return_atom_feas
                  then (case torch_split atom_feas atoms_per_graph of
                          Inl e \<Rightarrow> Inl e
                        | Inr fs \<Rightarrow> Inr (prediction(''atom_fea'' \<mapsto> TensorList2 fs)))
                  else Inr prediction) of
              Inl e \<Rightarrow> Inl e
            | Inr prediction \<Rightarrow>
                if site_wise'
                then (let magmom = map (map abs) (nn_Linear_forward (site_wise self) atom_feas)
                      in case torch_split (concat magmom) atoms_per_graph of
                           Inl e \<Rightarrow> Inl e
                         | Inr ms \<Rightarrow> Inr (prediction(''m'' \<mapsto> TensorList1 ms)))
                else Inr prediction)
      else Inr prediction)"

text \<open>
  The message-passing loop over
  \<open>enumerate(zip(atom_conv_layers[:-1], bond_conv_layers, angle_layers))\<close>. The loop
  state is \<open>(atom_feas, bond_feas, angle_feas, prediction)\<close>. With no angle in the
  batch \<open>angle_feas\<close> is unbound in the source and never read; the model holds \<open>[]\<close>.
\<close>

fun message_passing ::
  "CHGNet \<Rightarrow> vec option BatchedGraph \<Rightarrow> bool \<Rightarrow> bool \<Rightarrow> int list \<Rightarrow> mat \<Rightarrow> mat \<Rightarrow> nat \<Rightarrow>
   (AtomConv \<times> BondConv option \<times> AngleUpdate option) list \<Rightarrow>
   mat \<times> mat \<times> mat \<times> prediction \<Rightarrow> py_error + mat \<times> mat \<times> mat \<times> prediction" where
  "message_passing self g site_wise' return_atom_feas atoms_per_graph bw_ag bw_bg idx [] st = Inr st"
| "message_passing self g site_wise' return_atom_feas atoms_per_graph bw_ag bw_bg idx
     ((atom_layer, bond_layer, angle_layer) # layers) (atom_feas, bond_feas, angle_feas, prediction) =
     (let atom_feas = atom_layer atom_feas bond_feas bw_ag (batched_atom_graph g)
                        (BatchedGraph.directed2undirected g);
          (bond_feas, angle_feas) =
            (case bond_layer of
               Some bl \<Rightarrow>
                 if length (angle_bases g) \<noteq> 0
                 then (let bond_feas = bl atom_feas bond_feas bw_bg angle_feas (batched_bond_graph g)
                       in case angle_layer of
                            Some al \<Rightarrow> (bond_feas, al atom_feas bond_feas angle_feas (batched_bond_graph g))
                          | None \<Rightarrow> (bond_feas, angle_feas))
                 else (bond_feas, angle_feas)
             | None \<Rightarrow> (bond_feas, angle_feas))
      in case side_outputs self site_wise' return_atom_feas atoms_per_graph idx atom_feas prediction of
           Inl e \<Rightarrow> Inl e
         | Inr prediction \<Rightarrow>
             message_passing self g site_wise' return_atom_feas atoms_per_graph bw_ag bw_bg (Suc idx)
               layers (atom_feas, bond_feas, angle_feas, prediction))"

text \<open>
  Pooling and projection: the energy of each structure before any normalisation.
\<close>

definition readout_energy ::
  "CHGNet \<Rightarrow> vec option BatchedGraph \<Rightarrow> bool \<Rightarrow> int list \<Rightarrow> mat \<Rightarrow> prediction \<Rightarrow> vec \<times> prediction" where
  "readout_energy self g return_crystal_feas atoms_per_graph atom_feas prediction =
     (if mlp_first self
      then (let energies = mlp self atom_feas
            in (concat (pooling self energies (atom_owners g)), prediction))
      else (let crystal_feas = pooling self atom_feas (atom_owners g);
                energy = map2 (\<lambda>x n. x * real_of_int n) (concat (mlp self crystal_feas)) atoms_per_graph
            in (energy, if return_crystal_feas
                        then prediction(''crystal_fea'' \<mapsto> Tensor2 crystal_feas)
                        else prediction)))"

text \<open>
  Force and stress. The differentiation engine \<open>torch.autograd.grad(output, inputs)\<close>
  is a parameter: it returns one gradient per input tensor, or raises. A structure
  batched without a strain variable has no tensor to differentiate by.
\<close>

definition compute_force_part ::
  "(real \<Rightarrow> mat list \<Rightarrow> py_error + mat list) \<Rightarrow> vec option BatchedGraph \<Rightarrow> vec \<Rightarrow> prediction \<Rightarrow>
   py_error + prediction" where
  "compute_force_part autograd_grad g energy prediction =
     (case autograd_grad (sum_list energy) (atom_positions g) of
        Inl e \<Rightarrow> Inl e
      | Inr force \<Rightarrow>
          (let force = map (\<lambda>i. map (map (\<lambda>x. - 1 * x)) i) force
           in Inr (prediction(''f'' \<mapsto> TensorList2 force))))"

definition compute_stress_part ::
  "(real \<Rightarrow> mat list \<Rightarrow> py_error + mat list) \<Rightarrow> vec option BatchedGraph \<Rightarrow> vec \<Rightarrow> prediction \<Rightarrow>
   py_error + prediction" where
  "compute_stress_part autograd_grad g energy prediction =
     (case those (strains g) of
        None \<Rightarrow> Inl RuntimeError
      | Some strains' \<Rightarrow>
          (case autograd_grad (sum_list energy) strains' of
             Inl e \<Rightarrow> Inl e
           | Inr stress \<Rightarrow>
               (let scale = map (\<lambda>v. 1 / v * 160.21766208) (volumes g);
                    stress = map2 (\<lambda>i j. map (map (\<lambda>x. x * j)) i) stress scale
                in Inr (prediction(''s'' \<mapsto> TensorList2 stress)))))"

text \<open>
  \<open>_compute\<close> in three parts, in the order of the source. First the embeddings and the
  message passing; the result is \<open>atoms_per_graph\<close>, the bond weights of the atom graph
  and the loop state.
\<close>

definition compute_features ::
  "CHGNet \<Rightarrow> vec option BatchedGraph \<Rightarrow> bool \<Rightarrow> bool \<Rightarrow>
   py_error + int list \<times> mat \<times> mat \<times> mat \<times> mat \<times> prediction" where
  "compute_features self g site_wise' return_atom_feas =
     (case torch_bincount (atom_owners g) of
        Inl e \<Rightarrow> Inl e
      | Inr atoms_per_graph \<Rightarrow>
     (let prediction = Map.empty(''atoms_per_graph'' \<mapsto> IntTensor atoms_per_graph)
      in case AtomEmbedding_forward (atom_embedding self) (map (\<lambda>z. z - 1) (atomic_numbers g)) of
        Inl e \<Rightarrow> Inl e
      | Inr atom_feas \<Rightarrow>
     (let bond_feas = bond_embedding self (bond_bases_ag g);
          bw_ag = bond_weights_ag self (bond_bases_ag g);
          bw_bg = bond_weights_bg self (bond_bases_bg g);
          angle_feas = (if length (angle_bases g) \<noteq> 0
                        then angle_embedding self (angle_bases g) else [])
      in case message_passing self g site_wise' return_atom_feas atoms_per_graph bw_ag bw_bg 0
                (zip (butlast (atom_conv_layers self))
                     (zip (bond_conv_layers self) (angle_layers self)))
                (atom_feas, bond_feas, angle_feas, prediction) of
        Inl e \<Rightarrow> Inl e
      | Inr st \<Rightarrow> Inr (atoms_per_graph, bw_ag, st))))"

text \<open>
  Then the last convolution, the readout and the derivatives; the result is the
  energy before normalisation and the prediction.
\<close>

definition compute_readout ::
  "(real \<Rightarrow> mat list \<Rightarrow> py_error + mat list) \<Rightarrow> CHGNet \<Rightarrow> vec option BatchedGraph \<Rightarrow>
   bool \<Rightarrow> bool \<Rightarrow> bool \<Rightarrow> int list \<Rightarrow> mat \<Rightarrow> mat \<Rightarrow> mat \<Rightarrow> prediction \<Rightarrow>
   py_error + vec \<times> prediction" where
  "compute_readout autograd_grad self g compute_force compute_stress return_crystal_feas
       atoms_per_graph bw_ag atom_feas bond_feas prediction =
     (case atom_conv_layers self of
        [] \<Rightarrow> Inl IndexError
      | _ \<Rightarrow>
     (let atom_feas = last (atom_conv_layers self) atom_feas bond_feas bw_ag
                        (batched_atom_graph g) (BatchedGraph.directed2undirected g);
          atom_feas = (case readout_norm self of Some norm' \<Rightarrow> norm' atom_feas | None \<Rightarrow> atom_feas);
          (energy, prediction) =
             readout_energy self g return_crystal_feas atoms_per_graph atom_feas prediction
      in case (if compute_force then compute_force_part autograd_grad g energy prediction
               else Inr prediction) of
        Inl e \<Rightarrow> Inl e
      | Inr prediction \<Rightarrow>
     (case (if compute_stress then compute_stress_part autograd_grad g energy prediction
            else Inr prediction) of
        Inl e \<Rightarrow> Inl e
      | Inr prediction \<Rightarrow> Inr (energy, prediction))))"

text \<open>Last, the energy is divided by the atom counts if the model is intensive.\<close>

definition CHGNet_compute ::
  "(real \<Rightarrow> mat list \<Rightarrow> py_error + mat list) \<Rightarrow> CHGNet \<Rightarrow> vec option BatchedGraph \<Rightarrow>
   bool \<Rightarrow> bool \<Rightarrow> bool \<Rightarrow> bool \<Rightarrow> bool \<Rightarrow> py_error + prediction" where
  "CHGNet_compute autograd_grad self g site_wise' compute_force compute_stress
       return_atom_feas return_crystal_feas =
     (case compute_features self g site_wise' return_atom_feas of
        Inl e \<Rightarrow> Inl e
      | Inr (atoms_per_graph, bw_ag, atom_feas, bond_feas, angle_feas, prediction) \<Rightarrow>
     (case compute_readout autograd_grad self g compute_force compute_stress return_crystal_feas
             atoms_per_graph bw_ag atom_feas bond_feas prediction of
        Inl e \<Rightarrow> Inl e
      | Inr (energy, prediction) \<Rightarrow>
     (let energy = (if is_intensive self
                    then map2 (\<lambda>x n. x / real_of_int n) energy atoms_per_graph else energy)
      in Inr (prediction(''e'' \<mapsto> Tensor1 energy)))))"

text \<open>
  \<open>forward\<close>: the task string selects the quantities, the graphs are batched, and the
  composition energy (\<open>0\<close> without a composition model) is added to the energy.
\<close>

definition forward ::
  "(real \<Rightarrow> mat list \<Rightarrow> py_error + mat list) \<Rightarrow> CHGNet \<Rightarrow> Crystal_Graph list \<Rightarrow> string \<Rightarrow>
   bool \<Rightarrow> bool \<Rightarrow> py_error + prediction" where
  "forward autograd_grad self graphs task return_atom_feas return_crystal_feas =
     (let compute_force = CHR ''f'' \<in> set task;
          compute_stress = CHR ''s'' \<in> set task;
          site_wise' = CHR ''m'' \<in> set task
      in case from_graphs (BondEncoder_forward (bond_basis_expansion self))
                (AngleEncoder_forward (angle_basis_expansion self)) compute_stress graphs of
           Inl e \<Rightarrow> Inl e
         | Inr batched_graph \<Rightarrow>
        (case CHGNet_compute autograd_grad self batched_graph site_wise' compute_force compute_stress
                return_atom_feas return_crystal_feas of
           Inl e \<Rightarrow> Inl e
         | Inr prediction \<Rightarrow>
            (case prediction ''e'' of
               Some (Tensor1 energy) \<Rightarrow>
                 Inr (prediction(''e'' \<mapsto> Tensor1
                        (case composition_model self of
                           Some cm \<Rightarrow> map2 (+) energy (cm graphs)
                         | None \<Rightarrow> map (\<lambda>x. x + 0) energy)))
             | _ \<Rightarrow> Inl RuntimeError)))"

text \<open>
  The layer lists as \<open>__init__\<close> builds them: \<open>n_conv\<close> atom convolutions, and
  \<open>n_conv - 1\<close> slots each for the bond convolutions and the angle updates.
\<close>

definition layers_as_built :: "CHGNet \<Rightarrow> bool" where
  "layers_as_built self =
     (length (atom_conv_layers self) = nat (n_conv self) \<and>
      length (bond_conv_layers self) = nat (n_conv self - 1) \<and>
      length (angle_layers self) = nat (n_conv self - 1))"

subsection \<open>A small model and a small batch\<close>

text \<open>
  A model with \<open>n\<close> atom convolutions and no bond or angle layers, a batch of two
  structures (two atoms and one atom, no bonds), and a differentiation engine that
  answers with a fixed gradient. They serve to evaluate the definitions above.
\<close>

definition example_model :: "int \<Rightarrow> CHGNet" where
  "example_model n =
     \<lparr>n_conv = n, is_intensive = True, mlp_first = False, composition_model = None,
      atom_embedding = AtomEmbedding_init (\<lambda>i. [real i]) max_num_elements_default,
      bond_basis_expansion = \<lparr>rbf_expansion_ag = (\<lambda>r. [r]), rbf_expansion_bg = (\<lambda>r. [r])\<rparr>,
      bond_embedding = (\<lambda>x. x), bond_weights_ag = (\<lambda>x. x), bond_weights_bg = (\<lambda>x. x),
      angle_basis_expansion = \<lparr>fourier_expansion = (\<lambda>a. [1, a, a * a])\<rparr>,
      angle_embedding = map (\<lambda>r. case r of Some v \<Rightarrow> v | None \<Rightarrow> []),
      atom_conv_layers = replicate (nat n) (\<lambda>af bf bw ag d2u. map (map (\<lambda>x. x - 2)) af),
      bond_conv_layers = replicate (nat n - 1) None,
      angle_layers = replicate (nat n - 1) None,
      site_wise = \<lparr>weight = [[1]], bias = Some [0]\<rparr>,
      readout_norm = None,
      pooling = (\<lambda>feas owners.
                  map (\<lambda>k. [sum_list (map2 (\<lambda>f ow. if ow = int k then sum_list f else 0) feas owners)])
                      [0..<2]),
      mlp = (\<lambda>x. x)\<rparr>"

definition example_batch :: "vec option BatchedGraph" where
  "example_batch =
     \<lparr>atomic_numbers = [1, 8, 94], bond_bases_ag = [], bond_bases_bg = [], angle_bases = [],
      batched_atom_graph = [], batched_bond_graph = [], atom_owners = [0, 0, 1],
      directed2undirected = [],
      atom_positions = [[[0, 0, 0], [1, 1, 1]], [[0, 0, 0]]],
      strains = [Some zeros3, Some zeros3], volumes = [27, 8]\<rparr>"

definition example_autograd :: "real \<Rightarrow> mat list \<Rightarrow> py_error + mat list" where
  "example_autograd output inputs = Inr (map (map (map (\<lambda>x. x + 1))) inputs)"

definition example_graphs :: "Crystal_Graph list" where
  "example_graphs =
     [\<lparr>atomic_number = [1, 8], atom_frac_coord = [[0, 0, 0], [1 / 3, 1 / 3, 1 / 3]],
       lattice = [[3, 0, 0], [0, 3, 0], [0, 0, 3]],
       atom_graph = [], undirected2directed = [], directed2undirected = [],
       neighbor_image = [], bond_graph = []\<rparr>,
      \<lparr>atomic_number = [94], atom_frac_coord = [[0, 0, 0]],
       lattice = [[2, 0, 0], [0, 2, 0], [0, 0, 2]],
       atom_graph = [], undirected2directed = [], directed2undirected = [],
       neighbor_image = [], bond_graph = []\<rparr>]"

text \<open>
  The running offsets in front of structure \<open>k\<close>: the atoms, and the undirected bonds,
  of the structures before it.
\<close>

definition atoms_before :: "Crystal_Graph list \<Rightarrow> nat \<Rightarrow> int" where
  "atoms_before graphs k = (\<Sum>g\<leftarrow>take k graphs. int (length (atomic_number g)))"

definition bonds_before :: "Crystal_Graph list \<Rightarrow> nat \<Rightarrow> int" where
  "bonds_before graphs k = (\<Sum>g\<leftarrow>take k graphs. int (length (undirected2directed g)))"

text \<open>
  The input invariant of the data model: every index of a structure's graph is local
  to the structure, and there is one periodic image per directed bond.
\<close>

definition local_indices :: "Crystal_Graph \<Rightarrow> bool" where
  "local_indices g =
     (let n_atom = int (length (atomic_number g));
          n_dir = int (length (atom_graph g));
          n_und = int (length (undirected2directed g))
      in length (atom_frac_coord g) = length (atomic_number g) \<and>
         length (neighbor_image g) = length (atom_graph g) \<and>
         (\<forall>(a, b)\<in>set (atom_graph g). 0 \<le> a \<and> a < n_atom \<and> 0 \<le> b \<and> b < n_atom) \<and>
         (\<forall>i\<in>set (undirected2directed g). 0 \<le> i \<and> i < n_dir) \<and>
         (\<forall>i\<in>set (Crystal_Graph.directed2undirected g). 0 \<le> i \<and> i < n_und) \<and>
         (\<forall>(c0, c1, c2, c3, c4)\<in>set (bond_graph g).
            0 \<le> c0 \<and> c0 < n_atom \<and> 0 \<le> c1 \<and> c1 < n_und \<and> 0 \<le> c3 \<and> c3 < n_und \<and>
            0 \<le> c2 \<and> c2 < n_dir \<and> 0 \<le> c4 \<and> c4 < n_dir))"

text \<open>
  What the batched index fields hold for structure \<open>k\<close>: its own rows, shifted by the
  offsets in front of it; and the ranges of batched atom and bond indices that belong
  to structure \<open>k\<close>.
\<close>

definition atom_graph_block :: "Crystal_Graph list \<Rightarrow> nat \<Rightarrow> (int \<times> int) list" where
  "atom_graph_block graphs k =
     map (\<lambda>(a, b). (a + atoms_before graphs k, b + atoms_before graphs k))
         (atom_graph (graphs ! k))"

definition directed2undirected_block :: "Crystal_Graph list \<Rightarrow> nat \<Rightarrow> int list" where
  "directed2undirected_block graphs k =
     map (\<lambda>i. i + bonds_before graphs k) (Crystal_Graph.directed2undirected (graphs ! k))"

definition bond_graph_block :: "Crystal_Graph list \<Rightarrow> nat \<Rightarrow> (int \<times> int \<times> int) list" where
  "bond_graph_block graphs k =
     map (\<lambda>(c0, c1, c2, c3, c4).
            (c0 + atoms_before graphs k, c1 + bonds_before graphs k, c3 + bonds_before graphs k))
         (bond_graph (graphs ! k))"

definition structure_atoms :: "Crystal_Graph list \<Rightarrow> nat \<Rightarrow> int set" where
  "structure_atoms graphs k = {atoms_before graphs k ..< atoms_before graphs (Suc k)}"

definition structure_bonds :: "Crystal_Graph list \<Rightarrow> nat \<Rightarrow> int set" where
  "structure_bonds graphs k = {bonds_before graphs k ..< bonds_before graphs (Suc k)}"

section \<open>Properties\<close>

subsection \<open>Splitting a batched tensor\<close>









subsection \<open>The width of the angular basis\<close>

text \<open>
  Claim C6. Constructing the angle encoder with an even \<open>num_angular\<close> raises the
  assertion error before anything else is built; for an odd width \<open>2k + 1\<close> the
  assertion passes and the encoder is built around the Fourier expansion of order \<open>k\<close>.
\<close>

theorem AngleEncoder_init_odd_only:
  "(even num_angular \<longrightarrow> AngleEncoder_init Fourier num_angular learnable = Inl AssertionError) \<and>
   (\<forall>f. Fourier k learnable = Inr f \<longrightarrow>
      AngleEncoder_init Fourier (2 * k + 1) learnable = Inr \<lparr>fourier_expansion = f\<rparr>)"
proof (intro conjI impI allI)
  assume "even num_angular"
  then have "(num_angular - 1) mod 2 \<noteq> 0"
    by presburger
  then show "AngleEncoder_init Fourier num_angular learnable = Inl AssertionError"
    by (simp add: AngleEncoder_init_def)
next
  fix f
  assume "Fourier k learnable = Inr f"
  then show "AngleEncoder_init Fourier (2 * k + 1) learnable = Inr \<lparr>fourier_expansion = f\<rparr>"
    by (simp add: AngleEncoder_init_def)
qed

theorem AngleEncoder_init_odd_only_witness:
  "AngleEncoder_init (\<lambda>order l. Inr order) 8 False = Inl AssertionError \<and>
   AngleEncoder_init (\<lambda>order l. Inr order) 9 False = Inr \<lparr>fourier_expansion = 4\<rparr>"
proof -
  have e: "even (8 :: int)"
    by simp
  have f: "(\<lambda>order (l :: bool). Inr order :: py_error + int) 4 False = Inr 4"
    by simp
  show ?thesis
    using AngleEncoder_init_odd_only [of 8 "\<lambda>order l. Inr order" False 4] e f
    by simp
qed

subsection \<open>The index bookkeeping of the batcher\<close>

lemma map_err_Inr:
  "map_err f xs = Inr ys \<Longrightarrow> length ys = length xs"
  by (induction xs arbitrary: ys) (auto split: sum.splits)

lemma map_err_total:
  "(\<And>x. x \<in> set xs \<Longrightarrow> \<exists>y. f x = Inr y) \<Longrightarrow> \<exists>ys. map_err f xs = Inr ys"
proof (induction xs)
  case Nil
  then show ?case by simp
next
  case (Cons x xs)
  obtain y where y: "f x = Inr y"
    using Cons.prems [of x] by auto
  obtain ys where ys: "map_err f xs = Inr ys"
    using Cons.IH Cons.prems by auto
  show ?case
    by (simp add: y ys)
qed

lemma index_select_total:
  assumes "\<forall>i\<in>set idx. 0 \<le> i \<and> i < int (length t)"
  shows "\<exists>ys. index_select t idx = Inr ys \<and> length ys = length idx"
proof -
  have "\<exists>ys. index_select t idx = Inr ys"
    unfolding index_select_def using assms by (intro map_err_total) auto
  then obtain ys where ys: "index_select t idx = Inr ys" ..
  then have "length ys = length idx"
    unfolding index_select_def by (rule map_err_Inr)
  with ys show ?thesis by blast
qed

lemma tensor_getitem_total:
  assumes "\<forall>i\<in>set idx. 0 \<le> i \<and> i < int (length t)"
  shows "\<exists>ys. tensor_getitem t idx = Inr ys \<and> length ys = length idx"
proof -
  have "\<exists>ys. tensor_getitem t idx = Inr ys"
    unfolding tensor_getitem_def using assms by (intro map_err_total) (auto simp: Let_def)
  then obtain ys where ys: "tensor_getitem t idx = Inr ys" ..
  then have "length ys = length idx"
    unfolding tensor_getitem_def by (rule map_err_Inr)
  with ys show ?thesis by blast
qed

lemma length_mat_mul [simp]: "length (mat_mul A B) = length A"
  by (simp add: mat_mul_def)

lemma BondEncoder_forward_total:
  assumes "length center = n" "length neighbor = n" "length img = n"
    and "\<forall>i\<in>set u2d. 0 \<le> i \<and> i < int n"
  shows "\<exists>ag bg bv. BondEncoder_forward enc center neighbor u2d img lat = Inr (ag, bg, bv) \<and>
           length ag = length u2d \<and> length bv = n"
proof -
  let ?nb = "map2 vec_add neighbor (mat_mul img lat)"
  let ?bv = "map2 vec_sub center ?nb"
  let ?bl = "map vec_norm ?bv"
  have len: "length ?bl = n"
    using assms(1-3) by simp
  obtain ul where ul: "index_select ?bl u2d = Inr ul" and lul: "length ul = length u2d"
    using index_select_total [of u2d ?bl] assms(4) len by auto
  show ?thesis
    using ul lul len assms(1-3) by (simp add: BondEncoder_forward_def Let_def)
qed


lemma from_graphs_angles_total:
  assumes "\<forall>(c0, c1, c2, c3, c4)\<in>set (bond_graph g).
             0 \<le> c2 \<and> c2 < int (length bv) \<and> 0 \<le> c4 \<and> c4 < int (length bv)"
  shows "\<exists>s'. from_graphs_angles abe g bv s = Inr s' \<and>
           concat (l_batched_bond_graph s') =
             concat (l_batched_bond_graph s) @
               map (\<lambda>(c0, c1, c2, c3, c4).
                      (c0 + atom_offset_idx s, c1 + n_undirected s, c3 + n_undirected s))
                   (bond_graph g) \<and>
           s'\<lparr>l_angle_bases := l_angle_bases s, l_batched_bond_graph := l_batched_bond_graph s\<rparr> = s"
proof (cases "bond_graph g = []")
  case True
  then show ?thesis
    by (simp add: from_graphs_angles_def)
next
  case False
  have "\<forall>i\<in>set (map (\<lambda>(c0, c1, c2, c3, c4). c2) (bond_graph g)). 0 \<le> i \<and> i < int (length bv)"
    using assms by auto
  then obtain bi where bi: "index_select bv (map (\<lambda>(c0, c1, c2, c3, c4). c2) (bond_graph g)) = Inr bi"
    using index_select_total by blast
  have "\<forall>i\<in>set (map (\<lambda>(c0, c1, c2, c3, c4). c4) (bond_graph g)). 0 \<le> i \<and> i < int (length bv)"
    using assms by auto
  then obtain bj where bj: "index_select bv (map (\<lambda>(c0, c1, c2, c3, c4). c4) (bond_graph g)) = Inr bj"
    using index_select_total by blast
  show ?thesis
    using False bi bj by (simp add: from_graphs_angles_def)
qed

lemma from_graphs_step_local:
  assumes "local_indices g"
  shows "\<exists>s'. from_graphs_step (BondEncoder_forward enc) abe cs idx g s = Inr s' \<and>
           l_batched_atom_graph s' = l_batched_atom_graph s @
             [map (\<lambda>(a, b). (a + atom_offset_idx s, b + atom_offset_idx s)) (atom_graph g)] \<and>
           l_directed2undirected s' = l_directed2undirected s @
             [map (\<lambda>i. i + n_undirected s) (Crystal_Graph.directed2undirected g)] \<and>
           concat (l_batched_bond_graph s') =
             concat (l_batched_bond_graph s) @
               map (\<lambda>(c0, c1, c2, c3, c4).
                      (c0 + atom_offset_idx s, c1 + n_undirected s, c3 + n_undirected s))
                   (bond_graph g) \<and>
           l_atomic_numbers s' = l_atomic_numbers s @ [atomic_number g] \<and>
           atom_offset_idx s' = atom_offset_idx s + int (length (atomic_number g)) \<and>
           n_undirected s' = n_undirected s + int (length (undirected2directed g))"
proof -
  define lat where "lat = (if cs then mat_mul (lattice g) (mat_add eye3 zeros3) else lattice g)"
  define pos where "pos = mat_mul (atom_frac_coord g) lat"
  have lpos: "length pos = length (atomic_number g)"
    using assms by (simp add: pos_def local_indices_def Let_def)
  have ag: "\<forall>(a, b)\<in>set (atom_graph g).
              0 \<le> a \<and> a < int (length pos) \<and> 0 \<le> b \<and> b < int (length pos)"
    using assms lpos by (simp add: local_indices_def Let_def)
  have "\<forall>i\<in>set (map fst (atom_graph g)). 0 \<le> i \<and> i < int (length pos)"
    using ag by auto
  then obtain center where c: "tensor_getitem pos (map fst (atom_graph g)) = Inr center"
    and lc: "length center = length (atom_graph g)"
    using tensor_getitem_total [of "map fst (atom_graph g)" pos] by auto
  have "\<forall>i\<in>set (map snd (atom_graph g)). 0 \<le> i \<and> i < int (length pos)"
    using ag by auto
  then obtain neighbor where n: "tensor_getitem pos (map snd (atom_graph g)) = Inr neighbor"
    and ln: "length neighbor = length (atom_graph g)"
    using tensor_getitem_total [of "map snd (atom_graph g)" pos] by auto
  have li: "length (neighbor_image g) = length (atom_graph g)"
    using assms by (simp add: local_indices_def Let_def)
  have u: "\<forall>i\<in>set (undirected2directed g). 0 \<le> i \<and> i < int (length (atom_graph g))"
    using assms by (simp add: local_indices_def Let_def)
  obtain bag bbg bv where
    b: "BondEncoder_forward enc center neighbor (undirected2directed g) (neighbor_image g) lat
          = Inr (bag, bbg, bv)"
    and lbag: "length bag = length (undirected2directed g)"
    and lbv: "length bv = length (atom_graph g)"
    using BondEncoder_forward_total [OF lc ln li u, of enc lat] by blast
  define s1 where "s1 =
    s\<lparr>l_atomic_numbers := l_atomic_numbers s @ [atomic_number g],
      l_volumes := l_volumes s @ [det3 lat],
      l_strains := l_strains s @ [if cs then Some zeros3 else None],
      l_atom_positions := l_atom_positions s @ [pos],
      l_bond_bases_ag := l_bond_bases_ag s @ [bag],
      l_bond_bases_bg := l_bond_bases_bg s @ [bbg],
      l_batched_atom_graph := l_batched_atom_graph s @
        [map (\<lambda>(a, b). (a + atom_offset_idx s, b + atom_offset_idx s)) (atom_graph g)],
      l_directed2undirected := l_directed2undirected s @
        [map (\<lambda>i. i + n_undirected s) (Crystal_Graph.directed2undirected g)]\<rparr>"
  have bgr: "\<forall>(c0, c1, c2, c3, c4)\<in>set (bond_graph g).
               0 \<le> c2 \<and> c2 < int (length bv) \<and> 0 \<le> c4 \<and> c4 < int (length bv)"
    using assms lbv by (auto simp: local_indices_def Let_def)
  obtain s2 where a: "from_graphs_angles abe g bv s1 = Inr s2"
    and cc: "concat (l_batched_bond_graph s2) =
             concat (l_batched_bond_graph s1) @
               map (\<lambda>(c0, c1, c2, c3, c4).
                      (c0 + atom_offset_idx s1, c1 + n_undirected s1, c3 + n_undirected s1))
                   (bond_graph g)"
    and rest: "s2\<lparr>l_angle_bases := l_angle_bases s1, l_batched_bond_graph := l_batched_bond_graph s1\<rparr> = s1"
    using from_graphs_angles_total [OF bgr, of abe s1] by blast
  have f1: "l_batched_atom_graph s2 = l_batched_atom_graph s1"
    and f2: "l_directed2undirected s2 = l_directed2undirected s1"
    and f3: "l_atomic_numbers s2 = l_atomic_numbers s1"
    and f4: "atom_offset_idx s2 = atom_offset_idx s1"
    and f5: "n_undirected s2 = n_undirected s1"
    using arg_cong [OF rest, of l_batched_atom_graph]
      arg_cong [OF rest, of l_directed2undirected]
      arg_cong [OF rest, of l_atomic_numbers]
      arg_cong [OF rest, of atom_offset_idx]
      arg_cong [OF rest, of n_undirected]
    by simp_all
  have step: "from_graphs_step (BondEncoder_forward enc) abe cs idx g s =
      Inr (s2\<lparr>l_atom_owners := l_atom_owners s2 @ [replicate (length (atomic_number g)) (int idx)],
              atom_offset_idx := atom_offset_idx s2 + int (length (atomic_number g)),
              n_undirected := n_undirected s2 + int (length bag)\<rparr>)"
    using c n b a
    by (simp add: from_graphs_step_def Let_def lat_def [symmetric] pos_def [symmetric]
        s1_def [symmetric])
  show ?thesis
    unfolding step using cc f1 f2 f3 f4 f5 lbag by (simp add: s1_def)
qed


lemma atoms_before_Cons [simp]:
  "atoms_before (g # gs) 0 = 0"
  "atoms_before (g # gs) (Suc k) = int (length (atomic_number g)) + atoms_before gs k"
  by (simp_all add: atoms_before_def)

lemma bonds_before_Cons [simp]:
  "bonds_before (g # gs) 0 = 0"
  "bonds_before (g # gs) (Suc k) = int (length (undirected2directed g)) + bonds_before gs k"
  by (simp_all add: bonds_before_def)

lemma from_graphs_loop_local:
  assumes "\<forall>g\<in>set gs. local_indices g"
  shows "\<exists>s'. from_graphs_loop (BondEncoder_forward enc) abe cs idx gs s = Inr s' \<and>
           l_batched_atom_graph s' = l_batched_atom_graph s @
             map (\<lambda>k. map (\<lambda>(a, b). (a + (atom_offset_idx s + atoms_before gs k),
                                      b + (atom_offset_idx s + atoms_before gs k)))
                           (atom_graph (gs ! k))) [0..<length gs] \<and>
           l_directed2undirected s' = l_directed2undirected s @
             map (\<lambda>k. map (\<lambda>i. i + (n_undirected s + bonds_before gs k))
                           (Crystal_Graph.directed2undirected (gs ! k))) [0..<length gs] \<and>
           concat (l_batched_bond_graph s') = concat (l_batched_bond_graph s) @
             concat (map (\<lambda>k. map (\<lambda>(c0, c1, c2, c3, c4).
                                       (c0 + (atom_offset_idx s + atoms_before gs k),
                                        c1 + (n_undirected s + bonds_before gs k),
                                        c3 + (n_undirected s + bonds_before gs k)))
                                   (bond_graph (gs ! k))) [0..<length gs]) \<and>
           l_atomic_numbers s' = l_atomic_numbers s @ map atomic_number gs"
  using assms
proof (induction gs arbitrary: idx s)
  case Nil
  then show ?case by simp
next
  case (Cons g gs)
  have g: "local_indices g" and gs: "\<forall>g\<in>set gs. local_indices g"
    using Cons.prems by simp_all
  obtain s1 where st: "from_graphs_step (BondEncoder_forward enc) abe cs idx g s = Inr s1"
    and a1: "l_batched_atom_graph s1 = l_batched_atom_graph s @
             [map (\<lambda>(a, b). (a + atom_offset_idx s, b + atom_offset_idx s)) (atom_graph g)]"
    and d1: "l_directed2undirected s1 = l_directed2undirected s @
             [map (\<lambda>i. i + n_undirected s) (Crystal_Graph.directed2undirected g)]"
    and b1: "concat (l_batched_bond_graph s1) =
             concat (l_batched_bond_graph s) @
               map (\<lambda>(c0, c1, c2, c3, c4).
                      (c0 + atom_offset_idx s, c1 + n_undirected s, c3 + n_undirected s))
                   (bond_graph g)"
    and n1: "l_atomic_numbers s1 = l_atomic_numbers s @ [atomic_number g]"
    and o1: "atom_offset_idx s1 = atom_offset_idx s + int (length (atomic_number g))"
    and u1: "n_undirected s1 = n_undirected s + int (length (undirected2directed g))"
    using from_graphs_step_local [OF g, of enc abe cs idx s] by blast
  obtain s2 where lp: "from_graphs_loop (BondEncoder_forward enc) abe cs (Suc idx) gs s1 = Inr s2"
    and a2: "l_batched_atom_graph s2 = l_batched_atom_graph s1 @
             map (\<lambda>k. map (\<lambda>(a, b). (a + (atom_offset_idx s1 + atoms_before gs k),
                                      b + (atom_offset_idx s1 + atoms_before gs k)))
                           (atom_graph (gs ! k))) [0..<length gs]"
    and d2: "l_directed2undirected s2 = l_directed2undirected s1 @
             map (\<lambda>k. map (\<lambda>i. i + (n_undirected s1 + bonds_before gs k))
                           (Crystal_Graph.directed2undirected (gs ! k))) [0..<length gs]"
    and b2: "concat (l_batched_bond_graph s2) = concat (l_batched_bond_graph s1) @
             concat (map (\<lambda>k. map (\<lambda>(c0, c1, c2, c3, c4).
                                       (c0 + (atom_offset_idx s1 + atoms_before gs k),
                                        c1 + (n_undirected s1 + bonds_before gs k),
                                        c3 + (n_undirected s1 + bonds_before gs k)))
                                   (bond_graph (gs ! k))) [0..<length gs])"
    and n2: "l_atomic_numbers s2 = l_atomic_numbers s1 @ map atomic_number gs"
    using Cons.IH [OF gs, of "Suc idx" s1] by blast
  have run: "from_graphs_loop (BondEncoder_forward enc) abe cs idx (g # gs) s = Inr s2"
    using st lp by simp
  have upt: "[0..<length (g # gs)] = 0 # map Suc [0..<length gs]"
    by (simp add: upt_conv_Cons map_Suc_upt del: upt_Suc)
  have A: "l_batched_atom_graph s2 = l_batched_atom_graph s @
             map (\<lambda>k. map (\<lambda>(a, b). (a + (atom_offset_idx s + atoms_before (g # gs) k),
                                      b + (atom_offset_idx s + atoms_before (g # gs) k)))
                           (atom_graph ((g # gs) ! k))) [0..<length (g # gs)]"
    unfolding upt a2 a1 o1 by (simp add: add.assoc o_def)
  have D: "l_directed2undirected s2 = l_directed2undirected s @
             map (\<lambda>k. map (\<lambda>i. i + (n_undirected s + bonds_before (g # gs) k))
                           (Crystal_Graph.directed2undirected ((g # gs) ! k))) [0..<length (g # gs)]"
    unfolding upt d2 d1 u1 by (simp add: add.assoc o_def)
  have B: "concat (l_batched_bond_graph s2) = concat (l_batched_bond_graph s) @
             concat (map (\<lambda>k. map (\<lambda>(c0, c1, c2, c3, c4).
                                       (c0 + (atom_offset_idx s + atoms_before (g # gs) k),
                                        c1 + (n_undirected s + bonds_before (g # gs) k),
                                        c3 + (n_undirected s + bonds_before (g # gs) k)))
                                   (bond_graph ((g # gs) ! k))) [0..<length (g # gs)])"
    unfolding upt b2 b1 o1 u1 by (simp add: add.assoc o_def)
  have N: "l_atomic_numbers s2 = l_atomic_numbers s @ map atomic_number (g # gs)"
    using n2 n1 by simp
  show ?case
    using run A D B N by blast
qed


lemma atoms_before_Suc:
  "k < length graphs \<Longrightarrow>
     atoms_before graphs (Suc k) = atoms_before graphs k + int (length (atomic_number (graphs ! k)))"
  by (simp add: atoms_before_def take_Suc_conv_app_nth)

lemma bonds_before_Suc:
  "k < length graphs \<Longrightarrow>
     bonds_before graphs (Suc k) = bonds_before graphs k + int (length (undirected2directed (graphs ! k)))"
  by (simp add: bonds_before_def take_Suc_conv_app_nth)

lemma atoms_before_mono: "j \<le> k \<Longrightarrow> atoms_before graphs j \<le> atoms_before graphs k"
proof -
  assume "j \<le> k"
  then obtain d where k: "k = j + d"
    using le_Suc_ex by blast
  have "0 \<le> (\<Sum>g\<leftarrow>take d (drop j graphs). int (length (atomic_number g)))"
    by (rule sum_list_nonneg) auto
  then show ?thesis
    by (simp add: atoms_before_def k take_add)
qed

lemma bonds_before_mono: "j \<le> k \<Longrightarrow> bonds_before graphs j \<le> bonds_before graphs k"
proof -
  assume "j \<le> k"
  then obtain d where k: "k = j + d"
    using le_Suc_ex by blast
  have "0 \<le> (\<Sum>g\<leftarrow>take d (drop j graphs). int (length (undirected2directed g)))"
    by (rule sum_list_nonneg) auto
  then show ?thesis
    by (simp add: bonds_before_def k take_add)
qed

lemma structure_atoms_disjoint:
  "j \<noteq> k \<Longrightarrow> structure_atoms graphs j \<inter> structure_atoms graphs k = {}"
proof -
  assume "j \<noteq> k"
  then consider "Suc j \<le> k" | "Suc k \<le> j"
    by linarith
  then show ?thesis
  proof cases
    case 1
    then show ?thesis
      using atoms_before_mono [of "Suc j" k graphs] by (auto simp: structure_atoms_def)
  next
    case 2
    then show ?thesis
      using atoms_before_mono [of "Suc k" j graphs] by (auto simp: structure_atoms_def)
  qed
qed

lemma structure_bonds_disjoint:
  "j \<noteq> k \<Longrightarrow> structure_bonds graphs j \<inter> structure_bonds graphs k = {}"
proof -
  assume "j \<noteq> k"
  then consider "Suc j \<le> k" | "Suc k \<le> j"
    by linarith
  then show ?thesis
  proof cases
    case 1
    then show ?thesis
      using bonds_before_mono [of "Suc j" k graphs] by (auto simp: structure_bonds_def)
  next
    case 2
    then show ?thesis
      using bonds_before_mono [of "Suc k" j graphs] by (auto simp: structure_bonds_def)
  qed
qed

lemma blocks_in_range:
  assumes "k < length graphs" and "local_indices (graphs ! k)"
  shows "(\<forall>(a, b)\<in>set (atom_graph_block graphs k).
            a \<in> structure_atoms graphs k \<and> b \<in> structure_atoms graphs k) \<and>
         (\<forall>i\<in>set (directed2undirected_block graphs k). i \<in> structure_bonds graphs k) \<and>
         (\<forall>(c0, c1, c3)\<in>set (bond_graph_block graphs k).
            c0 \<in> structure_atoms graphs k \<and> c1 \<in> structure_bonds graphs k \<and>
            c3 \<in> structure_bonds graphs k)"
proof (intro conjI)
  show "\<forall>(a, b)\<in>set (atom_graph_block graphs k).
            a \<in> structure_atoms graphs k \<and> b \<in> structure_atoms graphs k"
    using assms(2)
    by (auto simp: atom_graph_block_def structure_atoms_def atoms_before_Suc [OF assms(1)]
        local_indices_def Let_def)
  show "\<forall>i\<in>set (directed2undirected_block graphs k). i \<in> structure_bonds graphs k"
    using assms(2)
    by (auto simp: directed2undirected_block_def structure_bonds_def bonds_before_Suc [OF assms(1)]
        local_indices_def Let_def)
  show "\<forall>(c0, c1, c3)\<in>set (bond_graph_block graphs k).
            c0 \<in> structure_atoms graphs k \<and> c1 \<in> structure_bonds graphs k \<and>
            c3 \<in> structure_bonds graphs k"
    using assms(2)
    by (auto simp: bond_graph_block_def structure_atoms_def structure_bonds_def
        atoms_before_Suc [OF assms(1)] bonds_before_Suc [OF assms(1)]
        local_indices_def Let_def)
qed

text \<open>
  Claim C3. For a non-empty list of structures whose indices are local, the batcher
  succeeds and the batched index fields are the concatenation, in input order, of each
  structure's own rows shifted by the offsets in front of it: \<open>atom_graph\<close> by the
  atoms of the structures before it, \<open>directed2undirected\<close> and the two bond columns
  of the bond graph by their undirected bonds, the atom column of the bond graph by
  their atoms. Every shifted index of structure \<open>k\<close> lies in the index range of
  structure \<open>k\<close>, and the ranges of distinct structures are disjoint.
\<close>

theorem from_graphs_offsets:
  assumes "graphs \<noteq> []" and "\<forall>g\<in>set graphs. local_indices g"
  shows "\<exists>bg. from_graphs (BondEncoder_forward enc) abe cs graphs = Inr bg \<and>
           batched_atom_graph bg = concat (map (atom_graph_block graphs) [0..<length graphs]) \<and>
           BatchedGraph.directed2undirected bg =
             concat (map (directed2undirected_block graphs) [0..<length graphs]) \<and>
           batched_bond_graph bg = concat (map (bond_graph_block graphs) [0..<length graphs]) \<and>
           (\<forall>k<length graphs.
              (\<forall>(a, b)\<in>set (atom_graph_block graphs k).
                 a \<in> structure_atoms graphs k \<and> b \<in> structure_atoms graphs k) \<and>
              (\<forall>i\<in>set (directed2undirected_block graphs k). i \<in> structure_bonds graphs k) \<and>
              (\<forall>(c0, c1, c3)\<in>set (bond_graph_block graphs k).
                 c0 \<in> structure_atoms graphs k \<and> c1 \<in> structure_bonds graphs k \<and>
                 c3 \<in> structure_bonds graphs k)) \<and>
           (\<forall>j k. j \<noteq> k \<longrightarrow>
              structure_atoms graphs j \<inter> structure_atoms graphs k = {} \<and>
              structure_bonds graphs j \<inter> structure_bonds graphs k = {})"
proof -
  obtain s where lp: "from_graphs_loop (BondEncoder_forward enc) abe cs 0 graphs from_graphs_init = Inr s"
    and a: "l_batched_atom_graph s = l_batched_atom_graph (from_graphs_init :: 'a from_graphs_state) @
             map (\<lambda>k. map (\<lambda>(a, b).
                    (a + (atom_offset_idx (from_graphs_init :: 'a from_graphs_state) + atoms_before graphs k),
                     b + (atom_offset_idx (from_graphs_init :: 'a from_graphs_state) + atoms_before graphs k)))
                           (atom_graph (graphs ! k))) [0..<length graphs]"
    and d: "l_directed2undirected s = l_directed2undirected (from_graphs_init :: 'a from_graphs_state) @
             map (\<lambda>k. map (\<lambda>i. i + (n_undirected (from_graphs_init :: 'a from_graphs_state) + bonds_before graphs k))
                           (Crystal_Graph.directed2undirected (graphs ! k))) [0..<length graphs]"
    and b: "concat (l_batched_bond_graph s) =
             concat (l_batched_bond_graph (from_graphs_init :: 'a from_graphs_state)) @
             concat (map (\<lambda>k. map (\<lambda>(c0, c1, c2, c3, c4).
                        (c0 + (atom_offset_idx (from_graphs_init :: 'a from_graphs_state) + atoms_before graphs k),
                         c1 + (n_undirected (from_graphs_init :: 'a from_graphs_state) + bonds_before graphs k),
                         c3 + (n_undirected (from_graphs_init :: 'a from_graphs_state) + bonds_before graphs k)))
                                   (bond_graph (graphs ! k))) [0..<length graphs])"
    and n: "l_atomic_numbers s =
             l_atomic_numbers (from_graphs_init :: 'a from_graphs_state) @ map atomic_number graphs"
    using from_graphs_loop_local [OF assms(2), of enc abe cs 0 from_graphs_init] by blast
  have ne: "l_atomic_numbers s \<noteq> []"
    using n assms(1) by simp
  define bg where "bg = (\<lparr>atomic_numbers = concat (l_atomic_numbers s),
                    bond_bases_ag = concat (l_bond_bases_ag s),
                    bond_bases_bg = concat (l_bond_bases_bg s),
                    angle_bases = (if length (l_angle_bases s) \<noteq> 0
                                   then concat (l_angle_bases s) else []),
                    batched_atom_graph = concat (l_batched_atom_graph s),
                    batched_bond_graph = (if l_batched_bond_graph s \<noteq> []
                                          then concat (l_batched_bond_graph s) else []),
                    atom_owners = concat (l_atom_owners s),
                    directed2undirected = concat (l_directed2undirected s),
                    atom_positions = l_atom_positions s,
                    strains = l_strains s,
                    volumes = l_volumes s\<rparr> :: 'a BatchedGraph)"
  have run: "from_graphs (BondEncoder_forward enc) abe cs graphs = Inr bg"
    using lp ne by (simp add: from_graphs_def bg_def)
  have A: "batched_atom_graph bg = concat (map (atom_graph_block graphs) [0..<length graphs])"
    using a by (simp add: bg_def from_graphs_init_def atom_graph_block_def [abs_def])
  have D: "BatchedGraph.directed2undirected bg =
             concat (map (directed2undirected_block graphs) [0..<length graphs])"
    using d by (simp add: bg_def from_graphs_init_def directed2undirected_block_def [abs_def])
  have "batched_bond_graph bg = concat (l_batched_bond_graph s)"
    by (simp add: bg_def)
  then have B: "batched_bond_graph bg = concat (map (bond_graph_block graphs) [0..<length graphs])"
    using b by (simp add: from_graphs_init_def bond_graph_block_def [abs_def])
  have R: "\<forall>k<length graphs.
              (\<forall>(a, b)\<in>set (atom_graph_block graphs k).
                 a \<in> structure_atoms graphs k \<and> b \<in> structure_atoms graphs k) \<and>
              (\<forall>i\<in>set (directed2undirected_block graphs k). i \<in> structure_bonds graphs k) \<and>
              (\<forall>(c0, c1, c3)\<in>set (bond_graph_block graphs k).
                 c0 \<in> structure_atoms graphs k \<and> c1 \<in> structure_bonds graphs k \<and>
                 c3 \<in> structure_bonds graphs k)"
    using blocks_in_range assms(2) by (meson nth_mem)
  have X: "\<forall>j k. j \<noteq> k \<longrightarrow>
              structure_atoms graphs j \<inter> structure_atoms graphs k = {} \<and>
              structure_bonds graphs j \<inter> structure_bonds graphs k = {}"
    using structure_atoms_disjoint structure_bonds_disjoint by blast
  show ?thesis
    using run A D B R X by blast
qed


theorem from_graphs_offsets_witness:
  "\<exists>bg. from_graphs
          (BondEncoder_forward \<lparr>rbf_expansion_ag = (\<lambda>r. [r]), rbf_expansion_bg = (\<lambda>r. [r])\<rparr>)
          (\<lambda>bi bj. map2 dot bi bj) False
          [\<lparr>atomic_number = [3, 8], atom_frac_coord = [[0, 0, 0], [1/2, 1/2, 1/2]],
            lattice = [[3, 0, 0], [0, 3, 0], [0, 0, 3]],
            atom_graph = [(0, 1), (1, 0)], undirected2directed = [0],
            directed2undirected = [0, 0],
            neighbor_image = [[0, 0, 0], [0, 0, 0]], bond_graph = []\<rparr>,
           \<lparr>atomic_number = [1, 1], atom_frac_coord = [[0, 0, 0], [1/2, 0, 0]],
            lattice = [[2, 0, 0], [0, 2, 0], [0, 0, 2]],
            atom_graph = [(0, 1), (1, 0), (0, 1), (1, 0)], undirected2directed = [0, 2],
            directed2undirected = [0, 0, 1, 1],
            neighbor_image = [[0, 0, 0], [0, 0, 0], [-1, 0, 0], [1, 0, 0]],
            bond_graph = [(0, 0, 0, 1, 2)]\<rparr>] = Inr bg \<and>
        batched_atom_graph bg = [(0, 1), (1, 0), (2, 3), (3, 2), (2, 3), (3, 2)] \<and>
        BatchedGraph.directed2undirected bg = [0, 0, 1, 1, 2, 2] \<and>
        batched_bond_graph bg = [(2, 1, 2)]"
proof -
  let ?g1 = "\<lparr>atomic_number = [3, 8], atom_frac_coord = [[0, 0, 0], [1/2, 1/2, 1/2]],
            lattice = [[3, 0, 0], [0, 3, 0], [0, 0, 3]],
            atom_graph = [(0, 1), (1, 0)], undirected2directed = [0],
            directed2undirected = [0, 0],
            neighbor_image = [[0, 0, 0], [0, 0, 0]], bond_graph = []\<rparr>"
  let ?g2 = "\<lparr>atomic_number = [1, 1], atom_frac_coord = [[0, 0, 0], [1/2, 0, 0]],
            lattice = [[2, 0, 0], [0, 2, 0], [0, 0, 2]],
            atom_graph = [(0, 1), (1, 0), (0, 1), (1, 0)], undirected2directed = [0, 2],
            directed2undirected = [0, 0, 1, 1],
            neighbor_image = [[0, 0, 0], [0, 0, 0], [-1, 0, 0], [1, 0, 0]],
            bond_graph = [(0, 0, 0, 1, 2)]\<rparr>"
  have h1: "[?g1, ?g2] \<noteq> []"
    by simp
  have h2: "\<forall>g\<in>set [?g1, ?g2]. local_indices g"
    by (simp add: local_indices_def)
  have e1: "concat (map (atom_graph_block [?g1, ?g2]) [0..<length [?g1, ?g2]]) =
              [(0, 1), (1, 0), (2, 3), (3, 2), (2, 3), (3, 2)]"
    by (simp add: atom_graph_block_def atoms_before_def)
  have e2: "concat (map (directed2undirected_block [?g1, ?g2]) [0..<length [?g1, ?g2]]) =
              [0, 0, 1, 1, 2, 2]"
    by (simp add: directed2undirected_block_def bonds_before_def)
  have e3: "concat (map (bond_graph_block [?g1, ?g2]) [0..<length [?g1, ?g2]]) = [(2, 1, 2)]"
    by (simp add: bond_graph_block_def atoms_before_def bonds_before_def)
  show ?thesis
    using from_graphs_offsets [OF h1 h2,
        of "\<lparr>rbf_expansion_ag = (\<lambda>r. [r]), rbf_expansion_bg = (\<lambda>r. [r])\<rparr>"
           "\<lambda>bi bj. map2 dot bi bj" False]
    unfolding e1 e2 e3 by blast
qed

subsection \<open>The clamp in front of the inverse cosine\<close>

lemma clamp_strict:
  fixes d :: real
  assumes "- 1 \<le> d" and "d \<le> 1"
  shows "- 1 < d * (1 - 0.000001) \<and> d * (1 - 0.000001) < 1"
  using assms by auto

text \<open>
  Claim C7. For bond vectors whose dot products lie in \<open>[-1, 1]\<close>, every argument
  handed to the inverse cosine is the dot product times \<open>1 - 10\<^sup>-\<^sup>6\<close> and lies
  strictly inside \<open>(-1, 1)\<close>; so no angle is NaN, every angle lies strictly between
  \<open>0\<close> and \<open>\<pi>\<close>, and every row of the angular basis is the Fourier expansion of
  such an angle. This covers exactly parallel and antiparallel bonds.
\<close>

theorem AngleEncoder_forward_finite:
  assumes "\<forall>(u, v)\<in>set (zip bond_i bond_j). - 1 \<le> dot u v \<and> dot u v \<le> 1"
  shows "(\<forall>c\<in>set (cosine_ij bond_i bond_j). - 1 < c \<and> c < 1) \<and>
         length (AngleEncoder_forward self bond_i bond_j) = length (zip bond_i bond_j) \<and>
         (\<forall>k<length (zip bond_i bond_j).
            cosine_ij bond_i bond_j ! k = dot (bond_i ! k) (bond_j ! k) * (1 - 0.000001) \<and>
            (\<exists>a. 0 < a \<and> a < pi \<and> cos a = cosine_ij bond_i bond_j ! k \<and>
                 AngleEncoder_forward self bond_i bond_j ! k = Some (fourier_expansion self a)))"
proof (intro conjI allI impI ballI)
  fix c
  assume "c \<in> set (cosine_ij bond_i bond_j)"
  then obtain u v where uv: "(u, v) \<in> set (zip bond_i bond_j)" and c: "c = dot u v * (1 - 0.000001)"
    by (auto simp: cosine_ij_def)
  have "- 1 \<le> dot u v \<and> dot u v \<le> 1"
    using assms uv by auto
  then show "- 1 < c" and "c < 1"
    using clamp_strict [of "dot u v"] c by simp_all
next
  show "length (AngleEncoder_forward self bond_i bond_j) = length (zip bond_i bond_j)"
    by (simp add: AngleEncoder_forward_def cosine_ij_def)
next
  fix k
  assume k: "k < length (zip bond_i bond_j)"
  then have ki: "k < length bond_i" and kj: "k < length bond_j"
    by simp_all
  show ck: "cosine_ij bond_i bond_j ! k = dot (bond_i ! k) (bond_j ! k) * (1 - 0.000001)"
    using ki kj by (simp add: cosine_ij_def)
  have "(bond_i ! k, bond_j ! k) \<in> set (zip bond_i bond_j)"
    using ki kj by (metis k nth_mem nth_zip)
  then have "- 1 \<le> dot (bond_i ! k) (bond_j ! k) \<and> dot (bond_i ! k) (bond_j ! k) \<le> 1"
    using assms by auto
  then have b: "- 1 < cosine_ij bond_i bond_j ! k \<and> cosine_ij bond_i bond_j ! k < 1"
    using clamp_strict [of "dot (bond_i ! k) (bond_j ! k)"] ck by simp
  let ?a = "arccos (cosine_ij bond_i bond_j ! k)"
  have a1: "0 < ?a \<and> ?a < pi"
    using b by (simp add: arccos_lt_bounded)
  have a2: "cos ?a = cosine_ij bond_i bond_j ! k"
    using b by simp
  have "length (cosine_ij bond_i bond_j) = length (zip bond_i bond_j)"
    by (simp add: cosine_ij_def)
  then have "AngleEncoder_forward self bond_i bond_j ! k =
        map_option (fourier_expansion self) (torch_acos (cosine_ij bond_i bond_j ! k))"
    using k by (simp add: AngleEncoder_forward_def)
  then have a3: "AngleEncoder_forward self bond_i bond_j ! k = Some (fourier_expansion self ?a)"
    using b by (simp add: torch_acos_def)
  show "\<exists>a. 0 < a \<and> a < pi \<and> cos a = cosine_ij bond_i bond_j ! k \<and>
            AngleEncoder_forward self bond_i bond_j ! k = Some (fourier_expansion self a)"
    using a1 a2 a3 by blast
qed

theorem AngleEncoder_forward_finite_witness:
  "(\<exists>a. 0 < a \<and> a < pi \<and> cos a = 0.999999 \<and>
        AngleEncoder_forward \<lparr>fourier_expansion = (\<lambda>x. [1, cos x, sin x])\<rparr>
          [[1, 0, 0], [1, 0, 0]] [[1, 0, 0], [- 1, 0, 0]] ! 0 = Some [1, cos a, sin a]) \<and>
   (\<exists>a. 0 < a \<and> a < pi \<and> cos a = - 0.999999 \<and>
        AngleEncoder_forward \<lparr>fourier_expansion = (\<lambda>x. [1, cos x, sin x])\<rparr>
          [[1, 0, 0], [1, 0, 0]] [[1, 0, 0], [- 1, 0, 0]] ! 1 = Some [1, cos a, sin a])"
proof -
  let ?bi = "[[1, 0, 0], [1, 0, 0]] :: mat"
  let ?bj = "[[1, 0, 0], [- 1, 0, 0]] :: mat"
  let ?self = "\<lparr>fourier_expansion = (\<lambda>x :: real. [1, cos x, sin x])\<rparr>"
  have h: "\<forall>(u, v)\<in>set (zip ?bi ?bj). - 1 \<le> dot u v \<and> dot u v \<le> 1"
    by (simp add: dot_def)
  have c0: "cosine_ij ?bi ?bj ! 0 = 0.999999"
    by (simp add: cosine_ij_def dot_def)
  have c1: "cosine_ij ?bi ?bj ! 1 = - 0.999999"
    by (simp add: cosine_ij_def dot_def)
  note t = AngleEncoder_forward_finite [OF h, of ?self]
  have l0: "0 < length (zip ?bi ?bj)" and l1: "1 < length (zip ?bi ?bj)"
    by simp_all
  obtain a0 where a0: "0 < a0" "a0 < pi" "cos a0 = cosine_ij ?bi ?bj ! 0"
      "AngleEncoder_forward ?self ?bi ?bj ! 0 = Some (fourier_expansion ?self a0)"
    using t [THEN conjunct2, THEN conjunct2, rule_format, OF l0] by blast
  obtain a1 where a1: "0 < a1" "a1 < pi" "cos a1 = cosine_ij ?bi ?bj ! 1"
      "AngleEncoder_forward ?self ?bi ?bj ! 1 = Some (fourier_expansion ?self a1)"
    using t [THEN conjunct2, THEN conjunct2, rule_format, OF l1] by blast
  have f: "\<And>a. fourier_expansion ?self a = [1, cos a, sin a]"
    by simp
  have k0: "\<exists>a. 0 < a \<and> a < pi \<and> cos a = 0.999999 \<and>
        AngleEncoder_forward ?self ?bi ?bj ! 0 = Some [1, cos a, sin a]"
    using a0 unfolding c0 f by blast
  have k1: "\<exists>a. 0 < a \<and> a < pi \<and> cos a = - 0.999999 \<and>
        AngleEncoder_forward ?self ?bi ?bj ! 1 = Some [1, cos a, sin a]"
    using a1 unfolding c1 f by blast
  show ?thesis
    using k0 k1 by (intro conjI)
qed

subsection \<open>The pooling selector\<close>

theorem read_out_unrecognized_counterexample:
  "CHGNet_init_readout 64 ''max'' False 3 =
     \<lparr>read_out_type = ''ave'', input_dim = 64, pooling_layer = GraphPooling True\<rparr>"
  by (simp add: CHGNet_init_readout_def)

text \<open>
  Claim C8, as amended. The readout selection never fails and never rejects a selector:
  with \<open>mlp_first\<close> the selector is ignored and sum pooling is used; otherwise
  \<open>attn\<close> and \<open>weighted\<close> select the attention readout and every other value of
  \<open>read_out\<close> selects average pooling. The claim as stated fails at
  \<open>read_out = max\<close>, which is treated as average pooling.
\<close>

theorem read_out_selection:
  "(mf \<longrightarrow> CHGNet_init_readout d read_out mf nh =
      \<lparr>read_out_type = ''sum'', input_dim = d, pooling_layer = GraphPooling False\<rparr>) \<and>
   (\<not> mf \<and> read_out \<in> {''attn'', ''weighted''} \<longrightarrow> CHGNet_init_readout d read_out mf nh =
      \<lparr>read_out_type = ''attn'', input_dim = d * nh,
       pooling_layer = GraphAttentionReadOut d nh True\<rparr>) \<and>
   (\<not> mf \<and> read_out \<notin> {''attn'', ''weighted''} \<longrightarrow> CHGNet_init_readout d read_out mf nh =
      \<lparr>read_out_type = ''ave'', input_dim = d, pooling_layer = GraphPooling True\<rparr>)"
proof (intro conjI impI)
  assume mf
  then show "CHGNet_init_readout d read_out mf nh =
      \<lparr>read_out_type = ''sum'', input_dim = d, pooling_layer = GraphPooling False\<rparr>"
    by (simp only: CHGNet_init_readout_def if_True)
next
  assume "\<not> mf \<and> read_out \<in> {''attn'', ''weighted''}"
  then have "\<not> mf" and "read_out \<in> set [''attn'', ''weighted'']"
    by simp_all
  then show "CHGNet_init_readout d read_out mf nh =
      \<lparr>read_out_type = ''attn'', input_dim = d * nh,
       pooling_layer = GraphAttentionReadOut d nh True\<rparr>"
    by (simp only: CHGNet_init_readout_def if_True if_False)
next
  assume "\<not> mf \<and> read_out \<notin> {''attn'', ''weighted''}"
  then have "\<not> mf" and "\<not> read_out \<in> set [''attn'', ''weighted'']"
    by simp_all
  then show "CHGNet_init_readout d read_out mf nh =
      \<lparr>read_out_type = ''ave'', input_dim = d, pooling_layer = GraphPooling True\<rparr>"
    by (simp only: CHGNet_init_readout_def if_True if_False)
qed

theorem read_out_selection_witness:
  "CHGNet_init_readout 64 ''ave'' True 3 =
      \<lparr>read_out_type = ''sum'', input_dim = 64, pooling_layer = GraphPooling False\<rparr> \<and>
   CHGNet_init_readout 64 ''weighted'' False 3 =
      \<lparr>read_out_type = ''attn'', input_dim = 64 * 3,
       pooling_layer = GraphAttentionReadOut 64 3 True\<rparr> \<and>
   CHGNet_init_readout 64 ''median'' False 3 =
      \<lparr>read_out_type = ''ave'', input_dim = 64, pooling_layer = GraphPooling True\<rparr>"
proof (intro conjI)
  show "CHGNet_init_readout 64 ''ave'' True 3 =
      \<lparr>read_out_type = ''sum'', input_dim = 64, pooling_layer = GraphPooling False\<rparr>"
    by (rule mp [OF read_out_selection [of True 64 "''ave''" 3, THEN conjunct1]]) simp
  show "CHGNet_init_readout 64 ''weighted'' False 3 =
      \<lparr>read_out_type = ''attn'', input_dim = 64 * 3,
       pooling_layer = GraphAttentionReadOut 64 3 True\<rparr>"
    by (rule mp [OF read_out_selection [of False 64 "''weighted''" 3,
            THEN conjunct2, THEN conjunct1]]) simp
  show "CHGNet_init_readout 64 ''median'' False 3 =
      \<lparr>read_out_type = ''ave'', input_dim = 64, pooling_layer = GraphPooling True\<rparr>"
    by (rule mp [OF read_out_selection [of False 64 "''median''" 3,
            THEN conjunct2, THEN conjunct2]]) simp
qed

subsection \<open>The range of the atomic numbers\<close>

lemma map_err_Inr_iff:
  "(\<exists>ys. map_err f xs = Inr ys) \<longleftrightarrow> (\<forall>x\<in>set xs. \<exists>y. f x = Inr y)"
  by (induction xs) (auto split: sum.splits)

lemma map_err_Inl:
  "map_err f xs = Inl e \<Longrightarrow> \<exists>x\<in>set xs. f x = Inl e"
  by (induction xs) (auto split: sum.splits)

lemma AtomEmbedding_forward_Inr_iff:
  "(\<exists>feas. AtomEmbedding_forward emb idx = Inr feas) \<longleftrightarrow>
   (\<forall>i\<in>set idx. 0 \<le> i \<and> i < int (length (embedding emb)))"
  unfolding AtomEmbedding_forward_def map_err_Inr_iff by auto

lemma AtomEmbedding_forward_Inl:
  "AtomEmbedding_forward emb idx = Inl e \<Longrightarrow> e = IndexError"
  unfolding AtomEmbedding_forward_def
  by (drule map_err_Inl) (auto split: if_splits)

lemma length_AtomEmbedding_init [simp]:
  "length (embedding (AtomEmbedding_init rows n)) = n"
  by (simp add: AtomEmbedding_init_def)

lemma shifted_range:
  "(\<forall>i\<in>set (map (\<lambda>z. z - 1) zs). 0 \<le> i \<and> i < int max_num_elements_default) \<longleftrightarrow>
   (\<forall>z\<in>set zs. 1 \<le> z \<and> z \<le> 94)"
  by (auto simp: max_num_elements_default_def)

lemma compute_features_embedding:
  assumes "compute_features self g sw raf = Inr r"
  shows "\<exists>feas. AtomEmbedding_forward (atom_embedding self) (map (\<lambda>z. z - 1) (atomic_numbers g)) = Inr feas"
  using assms
  by (cases "torch_bincount (atom_owners g)";
      cases "AtomEmbedding_forward (atom_embedding self) (map (\<lambda>z. z - 1) (atomic_numbers g))")
     (simp_all add: compute_features_def)

lemma CHGNet_compute_features:
  assumes "CHGNet_compute ad self g sw cf cs raf rcf = Inr pred"
  shows "\<exists>r. compute_features self g sw raf = Inr r"
proof (cases "compute_features self g sw raf")
  case (Inl e)
  then show ?thesis
    using assms by (simp add: CHGNet_compute_def)
next
  case (Inr r)
  then show ?thesis
    by blast
qed

lemma torch_bincount_Inr:
  "\<forall>x\<in>set xs. 0 \<le> x \<Longrightarrow> \<exists>apg. torch_bincount xs = Inr apg"
  by (auto simp: torch_bincount_def)

text \<open>
  Claim C10. The atom embedding is looked up at \<open>atomic_number - 1\<close> in a table of
  94 rows: the lookup succeeds exactly when every atomic number of the batch lies in
  \<open>[1, 94]\<close>. A prediction is returned only for such a batch, and an atomic number
  of \<open>0\<close> or above \<open>94\<close> makes \<open>_compute\<close> raise the index error.
\<close>

theorem atomic_number_range:
  assumes "atom_embedding self = AtomEmbedding_init rows max_num_elements_default"
  shows "((\<exists>feas. AtomEmbedding_forward (atom_embedding self)
                    (map (\<lambda>z. z - 1) (atomic_numbers g)) = Inr feas) \<longleftrightarrow>
          (\<forall>z\<in>set (atomic_numbers g). 1 \<le> z \<and> z \<le> 94)) \<and>
         ((\<exists>pred. CHGNet_compute ad self g sw cf cs raf rcf = Inr pred) \<longrightarrow>
          (\<forall>z\<in>set (atomic_numbers g). 1 \<le> z \<and> z \<le> 94)) \<and>
         ((\<forall>ow\<in>set (atom_owners g). 0 \<le> ow) \<and>
          (\<exists>z\<in>set (atomic_numbers g). z < 1 \<or> 94 < z) \<longrightarrow>
          CHGNet_compute ad self g sw cf cs raf rcf = Inl IndexError)"
proof -
  let ?look = "AtomEmbedding_forward (atom_embedding self) (map (\<lambda>z. z - 1) (atomic_numbers g))"
  have iff: "(\<exists>feas. ?look = Inr feas) \<longleftrightarrow> (\<forall>z\<in>set (atomic_numbers g). 1 \<le> z \<and> z \<le> 94)"
    unfolding AtomEmbedding_forward_Inr_iff assms length_AtomEmbedding_init shifted_range ..
  have ok: "(\<exists>pred. CHGNet_compute ad self g sw cf cs raf rcf = Inr pred) \<longrightarrow>
          (\<forall>z\<in>set (atomic_numbers g). 1 \<le> z \<and> z \<le> 94)"
    using CHGNet_compute_features compute_features_embedding iff by blast
  have bad: "CHGNet_compute ad self g sw cf cs raf rcf = Inl IndexError"
    if ow: "\<forall>ow\<in>set (atom_owners g). 0 \<le> ow"
      and z: "\<exists>z\<in>set (atomic_numbers g). z < 1 \<or> 94 < z"
  proof -
    obtain apg where apg: "torch_bincount (atom_owners g) = Inr apg"
      using torch_bincount_Inr [OF ow] ..
    have "\<not> (\<exists>feas. ?look = Inr feas)"
      using iff z by force
    then obtain e where "?look = Inl e"
      by (cases ?look) auto
    then have l: "?look = Inl IndexError"
      using AtomEmbedding_forward_Inl by blast
    have "compute_features self g sw raf = Inl IndexError"
      using apg l by (simp add: compute_features_def)
    then show ?thesis
      by (simp add: CHGNet_compute_def)
  qed
  show ?thesis
    using iff ok bad by blast
qed


theorem atomic_number_range_witness:
  "(\<exists>feas. AtomEmbedding_forward (atom_embedding (example_model 2))
             (map (\<lambda>z. z - 1) (atomic_numbers example_batch)) = Inr feas) \<and>
   CHGNet_compute example_autograd (example_model 2) (example_batch\<lparr>atomic_numbers := [1, 0, 94]\<rparr>)
     True True True False False = Inl IndexError \<and>
   CHGNet_compute example_autograd (example_model 2) (example_batch\<lparr>atomic_numbers := [1, 8, 95]\<rparr>)
     True True True False False = Inl IndexError"
proof -
  have e: "atom_embedding (example_model 2) =
             AtomEmbedding_init (\<lambda>i. [real i]) max_num_elements_default"
    by (simp add: example_model_def)
  have r: "\<forall>z\<in>set (atomic_numbers example_batch). 1 \<le> z \<and> z \<le> 94"
    by (simp add: example_batch_def)
  have b0: "(\<forall>ow\<in>set (atom_owners (example_batch\<lparr>atomic_numbers := [1, 0, 94]\<rparr>)). 0 \<le> ow) \<and>
            (\<exists>z\<in>set (atomic_numbers (example_batch\<lparr>atomic_numbers := [1, 0, 94]\<rparr>)). z < 1 \<or> 94 < z)"
    by (simp add: example_batch_def)
  have b1: "(\<forall>ow\<in>set (atom_owners (example_batch\<lparr>atomic_numbers := [1, 8, 95]\<rparr>)). 0 \<le> ow) \<and>
            (\<exists>z\<in>set (atomic_numbers (example_batch\<lparr>atomic_numbers := [1, 8, 95]\<rparr>)). z < 1 \<or> 94 < z)"
    by (simp add: example_batch_def)
  have w1: "\<exists>feas. AtomEmbedding_forward (atom_embedding (example_model 2))
             (map (\<lambda>z. z - 1) (atomic_numbers example_batch)) = Inr feas"
    using atomic_number_range [OF e, of example_batch, THEN conjunct1] r by blast
  have w2: "CHGNet_compute example_autograd (example_model 2)
              (example_batch\<lparr>atomic_numbers := [1, 0, 94]\<rparr>) True True True False False = Inl IndexError"
    by (rule mp [OF atomic_number_range [OF e, THEN conjunct2, THEN conjunct2] b0])
  have w3: "CHGNet_compute example_autograd (example_model 2)
              (example_batch\<lparr>atomic_numbers := [1, 8, 95]\<rparr>) True True True False False = Inl IndexError"
    by (rule mp [OF atomic_number_range [OF e, THEN conjunct2, THEN conjunct2] b1])
  show ?thesis
    using w1 w2 w3 by (intro conjI)
qed

subsection \<open>The magnetic moments\<close>

lemma chunks_props:
  "sum_list ns = length x \<Longrightarrow>
     concat (chunks x ns) = x \<and> length (chunks x ns) = length ns \<and>
     (\<forall>k<length ns. length (chunks x ns ! k) = ns ! k)"
proof (induction ns arbitrary: x)
  case Nil
  then show ?case by simp
next
  case (Cons n ns)
  have "sum_list ns = length (drop n x)"
    using Cons.prems by simp
  from Cons.IH [OF this] have IH: "concat (chunks (drop n x) ns) = drop n x"
      "length (chunks (drop n x) ns) = length ns"
      "\<forall>k<length ns. length (chunks (drop n x) ns ! k) = ns ! k"
    by simp_all
  have n: "n \<le> length x"
    using Cons.prems by simp
  show ?case
  proof (intro conjI allI impI)
    show "concat (chunks x (n # ns)) = x"
      using IH(1) by simp
    show "length (chunks x (n # ns)) = length (n # ns)"
      using IH(2) by simp
    fix k
    assume "k < length (n # ns)"
    then show "length (chunks x (n # ns) ! k) = (n # ns) ! k"
      using IH(3) n by (cases k) simp_all
  qed
qed

lemma torch_split_Inr:
  assumes "torch_split x sizes = Inr r"
  shows "concat r = x \<and> length r = length sizes \<and>
         (\<forall>k<length sizes. int (length (r ! k)) = sizes ! k) \<and>
         sum_list sizes = int (length x)"
proof -
  have nn: "\<forall>n\<in>set sizes. 0 \<le> n" and sm: "sum_list sizes = int (length x)"
    and r: "r = chunks x (map nat sizes)"
    using assms by (auto simp: torch_split_def split: if_splits)
  have "int (sum_list (map nat sizes)) = sum_list sizes"
    using nn by (induction sizes) simp_all
  then have "sum_list (map nat sizes) = length x"
    using sm by linarith
  from chunks_props [OF this] have c: "concat r = x" "length r = length sizes"
    "\<forall>k<length sizes. length (r ! k) = nat (sizes ! k)"
    unfolding r by simp_all
  have "\<forall>k<length sizes. int (length (r ! k)) = sizes ! k"
    using c(3) nn by simp
  with c sm show ?thesis
    by blast
qed

lemma indicator_sum:
  "(\<Sum>v\<leftarrow>[0..<n]. if v = m then 1 else (0::int)) = (if m < n then 1 else 0)"
  by (induction n) auto

lemma count_sum:
  "\<forall>x\<in>set xs. 0 \<le> x \<and> x < int n \<Longrightarrow>
     (\<Sum>v\<leftarrow>[0..<n]. int (count_list xs (int v))) = int (length xs)"
proof (induction xs)
  case Nil
  then show ?case by (simp add: sum_list_0)
next
  case (Cons x xs)
  have x: "0 \<le> x" "x < int n"
    using Cons.prems by simp_all
  have "(\<Sum>v\<leftarrow>[0..<n]. int (count_list (x # xs) (int v))) =
        (\<Sum>v\<leftarrow>[0..<n]. (if v = nat x then 1 else 0) + int (count_list xs (int v)))"
    using x by (intro arg_cong [where f = sum_list] map_cong) auto
  also have "\<dots> = (\<Sum>v\<leftarrow>[0..<n]. if v = nat x then 1 else 0) + (\<Sum>v\<leftarrow>[0..<n]. int (count_list xs (int v)))"
    by (simp add: sum_list_addf)
  also have "(\<Sum>v\<leftarrow>[0..<n]. if v = nat x then 1 else (0::int)) = 1"
    using x by (simp add: indicator_sum)
  finally show ?case
    using Cons.IH Cons.prems by simp
qed


lemma fold_max_ge:
  fixes xs :: "int list"
  shows "a \<le> fold max xs a \<and> (\<forall>x\<in>set xs. x \<le> fold max xs a)"
proof (induction xs arbitrary: a)
  case Nil
  then show ?case by simp
next
  case (Cons y ys)
  have "max y a \<le> fold max ys (max y a)" and "\<forall>x\<in>set ys. x \<le> fold max ys (max y a)"
    using Cons.IH [of "max y a"] by simp_all
  then show ?case
    by auto
qed

lemma torch_bincount_Inr_props:
  assumes "torch_bincount xs = Inr apg"
  shows "sum_list apg = int (length xs) \<and>
         (\<forall>k<length apg. apg ! k = int (count_list xs (int k)))"
proof -
  have nn: "\<forall>x\<in>set xs. 0 \<le> x"
    using assms by (auto simp: torch_bincount_def split: if_splits)
  define n where "n = (case xs of [] \<Rightarrow> 0 | _ \<Rightarrow> nat (fold max xs 0) + 1)"
  have apg: "apg = map (\<lambda>v. int (count_list xs (int v))) [0..<n]"
    using assms nn by (auto simp: torch_bincount_def n_def split: if_splits)
  have "\<forall>x\<in>set xs. 0 \<le> x \<and> x < int n"
  proof
    fix x
    assume x: "x \<in> set xs"
    then have "xs \<noteq> []"
      by auto
    then have n: "n = nat (fold max xs 0) + 1"
      by (cases xs) (simp_all add: n_def)
    have "x \<le> fold max xs 0"
      using fold_max_ge [of 0 xs] x by blast
    then show "0 \<le> x \<and> x < int n"
      using nn x n by auto
  qed
  then have "sum_list apg = int (length xs)"
    unfolding apg by (rule count_sum)
  moreover have "\<forall>k<length apg. apg ! k = int (count_list xs (int k))"
    unfolding apg by simp
  ultimately show ?thesis
    by blast
qed

lemma side_outputs_at:
  assumes "side_outputs self True raf apg idx af p = Inr p'" and "int idx = n_conv self - 2"
  shows "\<exists>ms. p' ''m'' = Some (TensorList1 ms) \<and>
           torch_split (concat (map (map abs) (nn_Linear_forward (site_wise self) af))) apg = Inr ms"
proof -
  let ?mag = "concat (map (map abs) (nn_Linear_forward (site_wise self) af))"
  obtain p1 where "(case torch_split ?mag apg of
        Inl e \<Rightarrow> Inl e | Inr ms \<Rightarrow> Inr (p1(''m'' \<mapsto> TensorList1 ms))) = Inr p'"
    using assms by (auto simp: side_outputs_def Let_def split: if_splits sum.splits)
  then obtain ms where "torch_split ?mag apg = Inr ms" and "p' = p1(''m'' \<mapsto> TensorList1 ms)"
    by (cases "torch_split ?mag apg") auto
  then show ?thesis
    by simp
qed

lemma message_passing_m:
  assumes "message_passing self g True raf apg bwa bwb idx layers st = Inr st'"
    and "int idx + int (length layers) = n_conv self - 1"
    and "layers \<noteq> []"
  shows "\<exists>ms. snd (snd (snd st')) ''m'' = Some (TensorList1 ms) \<and>
           torch_split (concat (map (map abs) (nn_Linear_forward (site_wise self) (fst st')))) apg
             = Inr ms"
  using assms
proof (induction layers arbitrary: idx st)
  case Nil
  then show ?case by simp
next
  case (Cons l layers)
  obtain atom_layer bond_layer angle_layer where l: "l = (atom_layer, bond_layer, angle_layer)"
    by (cases l) auto
  obtain af bf anf p where st: "st = (af, bf, anf, p)"
    by (cases st) auto
  define af1 where "af1 = atom_layer af bf bwa (batched_atom_graph g) (BatchedGraph.directed2undirected g)"
  define ba where "ba =
            (case bond_layer of
               Some bl \<Rightarrow>
                 if length (angle_bases g) \<noteq> 0
                 then (let bond_feas = bl af1 bf bwb anf (batched_bond_graph g)
                       in case angle_layer of
                            Some al \<Rightarrow> (bond_feas, al af1 bond_feas anf (batched_bond_graph g))
                          | None \<Rightarrow> (bond_feas, anf))
                 else (bf, anf)
             | None \<Rightarrow> (bf, anf))"
  have eq: "message_passing self g True raf apg bwa bwb idx (l # layers) st =
      (case side_outputs self True raf apg idx af1 p of
         Inl e \<Rightarrow> Inl e
       | Inr p1 \<Rightarrow> message_passing self g True raf apg bwa bwb (Suc idx) layers
                     (af1, fst ba, snd ba, p1))"
    unfolding l st af1_def ba_def by (simp add: Let_def case_prod_beta)
  then obtain p1 where so: "side_outputs self True raf apg idx af1 p = Inr p1"
    and rest: "message_passing self g True raf apg bwa bwb (Suc idx) layers (af1, fst ba, snd ba, p1) = Inr st'"
    using Cons.prems(1) by (cases "side_outputs self True raf apg idx af1 p") auto
  show ?case
  proof (cases "layers = []")
    case True
    then have "int idx = n_conv self - 2"
      using Cons.prems(2) by simp
    from side_outputs_at [OF so this] obtain ms where
      "p1 ''m'' = Some (TensorList1 ms)"
      "torch_split (concat (map (map abs) (nn_Linear_forward (site_wise self) af1))) apg = Inr ms"
      by blast
    moreover have "st' = (af1, fst ba, snd ba, p1)"
      using rest True by simp
    ultimately show ?thesis
      by auto
  next
    case False
    have "int (Suc idx) + int (length layers) = n_conv self - 1"
      using Cons.prems(2) by simp
    from Cons.IH [OF rest this False] show ?thesis .
  qed
qed


lemma list_case_nonempty:
  "xs \<noteq> [] \<Longrightarrow> (case xs of [] \<Rightarrow> a | _ \<Rightarrow> b) = b"
  by (cases xs) simp_all

lemma compute_readout_Inr:
  assumes "compute_readout ad self g cf cs rcf apg bwa af bf p = Inr (energy, p')"
  shows "\<exists>af' p0 p1. readout_energy self g rcf apg af' p = (energy, p0) \<and>
           (if cf then compute_force_part ad g energy p0 else Inr p0) = Inr p1 \<and>
           (if cs then compute_stress_part ad g energy p1 else Inr p1) = Inr p'"
proof -
  have ne: "atom_conv_layers self \<noteq> []"
    using assms by (auto simp: compute_readout_def)
  define af1 where "af1 = last (atom_conv_layers self) af bf bwa
                        (batched_atom_graph g) (BatchedGraph.directed2undirected g)"
  define af2 where "af2 = (case readout_norm self of Some norm' \<Rightarrow> norm' af1 | None \<Rightarrow> af1)"
  obtain en p0 where re: "readout_energy self g rcf apg af2 p = (en, p0)"
    by (cases "readout_energy self g rcf apg af2 p") auto
  have eq: "compute_readout ad self g cf cs rcf apg bwa af bf p =
      (case (if cf then compute_force_part ad g en p0 else Inr p0) of
         Inl e \<Rightarrow> Inl e
       | Inr p1 \<Rightarrow>
          (case (if cs then compute_stress_part ad g en p1 else Inr p1) of
             Inl e \<Rightarrow> Inl e
           | Inr p2 \<Rightarrow> Inr (en, p2)))"
    using re unfolding af2_def af1_def compute_readout_def list_case_nonempty [OF ne]
    by (simp add: Let_def)
  obtain p1 where f: "(if cf then compute_force_part ad g en p0 else Inr p0) = Inr p1"
    using assms unfolding eq
    by (cases "if cf then compute_force_part ad g en p0 else Inr p0") auto
  obtain p2 where st: "(if cs then compute_stress_part ad g en p1 else Inr p1) = Inr p2"
    using assms unfolding eq f
    by (cases "if cs then compute_stress_part ad g en p1 else Inr p1") auto
  have "Inr (en, p2) = (Inr (energy, p') :: py_error + vec \<times> prediction)"
    using assms by (simp only: eq f st sum.case)
  then have "en = energy" and "p2 = p'"
    by simp_all
  then show ?thesis
    using re f st by blast
qed

lemma readout_energy_keeps:
  "readout_energy self g rcf apg af p = (energy, p0) \<Longrightarrow> k \<noteq> ''crystal_fea'' \<Longrightarrow> p0 k = p k"
  by (auto simp: readout_energy_def Let_def split: if_splits)

lemma compute_force_part_Inr:
  assumes "compute_force_part ad g energy p = Inr p'"
  shows "\<exists>grads. ad (sum_list energy) (atom_positions g) = Inr grads \<and>
           p' = p(''f'' \<mapsto> TensorList2 (map (\<lambda>i. map (map (\<lambda>x. - 1 * x)) i) grads))"
  using assms
  by (cases "ad (sum_list energy) (atom_positions g)") (auto simp: compute_force_part_def Let_def)

lemma compute_stress_part_Inr:
  assumes "compute_stress_part ad g energy p = Inr p'"
  shows "\<exists>strains' grads. those (strains g) = Some strains' \<and>
           ad (sum_list energy) strains' = Inr grads \<and>
           p' = p(''s'' \<mapsto> TensorList2
                  (map2 (\<lambda>i j. map (map (\<lambda>x. x * j)) i) grads
                     (map (\<lambda>v. 1 / v * 160.21766208) (volumes g))))"
proof -
  obtain strains' where s: "those (strains g) = Some strains'"
    using assms by (cases "those (strains g)") (auto simp: compute_stress_part_def)
  obtain grads where a: "ad (sum_list energy) strains' = Inr grads"
    using assms s by (cases "ad (sum_list energy) strains'") (auto simp: compute_stress_part_def)
  show ?thesis
    using assms s a by (auto simp: compute_stress_part_def Let_def)
qed

lemma compute_readout_keeps_m:
  assumes "compute_readout ad self g cf cs rcf apg bwa af bf p = Inr (energy, p')"
  shows "p' ''m'' = p ''m''"
proof -
  obtain af' p0 p1 where re: "readout_energy self g rcf apg af' p = (energy, p0)"
    and f: "(if cf then compute_force_part ad g energy p0 else Inr p0) = Inr p1"
    and st: "(if cs then compute_stress_part ad g energy p1 else Inr p1) = Inr p'"
    using compute_readout_Inr [OF assms] by blast
  have 0: "p0 ''m'' = p ''m''"
    using readout_energy_keeps [OF re] by simp
  have 1: "p1 ''m'' = p0 ''m''"
    using f compute_force_part_Inr [of ad g energy p0 p1] by (cases cf) auto
  have 2: "p' ''m'' = p1 ''m''"
    using st compute_stress_part_Inr [of ad g energy p1 p'] by (cases cs) auto
  show ?thesis
    using 0 1 2 by simp
qed

lemma CHGNet_compute_Inr:
  assumes "CHGNet_compute ad self g sw cf cs raf rcf = Inr pred"
  shows "\<exists>apg bwa af bf anf p energy p'.
           compute_features self g sw raf = Inr (apg, bwa, af, bf, anf, p) \<and>
           compute_readout ad self g cf cs rcf apg bwa af bf p = Inr (energy, p') \<and>
           pred = p'(''e'' \<mapsto> Tensor1 (if is_intensive self
                     then map2 (\<lambda>x n. x / real_of_int n) energy apg else energy))"
proof -
  obtain apg bwa af bf anf p where cf: "compute_features self g sw raf = Inr (apg, bwa, af, bf, anf, p)"
    using assms by (cases "compute_features self g sw raf") (auto simp: CHGNet_compute_def)
  obtain energy p' where cr: "compute_readout ad self g cf cs rcf apg bwa af bf p = Inr (energy, p')"
    using assms cf
    by (cases "compute_readout ad self g cf cs rcf apg bwa af bf p") (auto simp: CHGNet_compute_def)
  have "pred = p'(''e'' \<mapsto> Tensor1 (if is_intensive self
                     then map2 (\<lambda>x n. x / real_of_int n) energy apg else energy))"
    using assms cf cr by (simp add: CHGNet_compute_def Let_def)
  with cf cr show ?thesis
    by blast
qed

lemma compute_features_Inr:
  assumes "compute_features self g sw raf = Inr (apg, bwa, st)"
  shows "torch_bincount (atom_owners g) = Inr apg \<and>
         (\<exists>af0 bf0 anf0 bwb.
            message_passing self g sw raf apg bwa bwb 0
              (zip (butlast (atom_conv_layers self)) (zip (bond_conv_layers self) (angle_layers self)))
              (af0, bf0, anf0, Map.empty(''atoms_per_graph'' \<mapsto> IntTensor apg)) = Inr st)"
proof -
  obtain apg' where b: "torch_bincount (atom_owners g) = Inr apg'"
    using assms by (cases "torch_bincount (atom_owners g)") (auto simp: compute_features_def)
  obtain af0 where e: "AtomEmbedding_forward (atom_embedding self)
                         (map (\<lambda>z. z - 1) (atomic_numbers g)) = Inr af0"
    using assms b
    by (cases "AtomEmbedding_forward (atom_embedding self) (map (\<lambda>z. z - 1) (atomic_numbers g))")
       (auto simp: compute_features_def)
  let ?mp = "message_passing self g sw raf apg' (bond_weights_ag self (bond_bases_ag g))
               (bond_weights_bg self (bond_bases_bg g)) 0
               (zip (butlast (atom_conv_layers self)) (zip (bond_conv_layers self) (angle_layers self)))
               (af0, bond_embedding self (bond_bases_ag g),
                if length (angle_bases g) \<noteq> 0 then angle_embedding self (angle_bases g) else [],
                Map.empty(''atoms_per_graph'' \<mapsto> IntTensor apg'))"
  have eq: "compute_features self g sw raf =
              (case ?mp of Inl e \<Rightarrow> Inl e
               | Inr st \<Rightarrow> Inr (apg', bond_weights_ag self (bond_bases_ag g), st))"
    using b e by (simp add: compute_features_def Let_def)
  obtain st' where m: "?mp = Inr st'"
    using assms unfolding eq by (cases ?mp) auto
  have "apg' = apg" and "bwa = bond_weights_ag self (bond_bases_ag g)" and "st' = st"
    using assms unfolding eq m by simp_all
  then show ?thesis
    using b m by blast
qed


text \<open>
  Claim C9. Whenever the task requests magnetic moments, the prediction should hold
  one non-negative moment per atom. A model with a single convolution does not do so:
  the loop over \<open>atom_conv_layers[:-1]\<close> has no iteration, the gate
  \<open>idx == self.n_conv - 2\<close> inside it is never reached, and the prediction returned
  for the example batch with \<open>site_wise\<close> requested has the entries
  \<open>atoms_per_graph\<close> and \<open>e\<close> only.
\<close>

theorem magmom_missing_single_conv:
  "CHGNet_compute example_autograd (example_model 1) example_batch True False False False False
   = Inr (Map.empty(''atoms_per_graph'' \<mapsto> IntTensor [2, 1], ''e'' \<mapsto> Tensor1 [3, 91]))"
  by (simp add: CHGNet_compute_def compute_features_def compute_readout_def readout_energy_def
      example_model_def example_batch_def torch_bincount_def AtomEmbedding_forward_def
      AtomEmbedding_init_def max_num_elements_default_def Let_def numeral_2_eq_2)

text \<open>
  With at least two convolutions the moments are there: whenever they are requested
  and \<open>_compute\<close> returns, the prediction holds under \<open>m\<close> one list per structure;
  the lists concatenated are the absolute values of the linear projection
  \<open>site_wise\<close> of the atom features that leave the message-passing loop, there is
  one entry per atom of the batch and as many entries in list \<open>k\<close> as structure
  \<open>k\<close> has atoms, and every entry is non-negative.
\<close>

theorem magmom_per_atom_nonneg:
  assumes "layers_as_built self" and "2 \<le> n_conv self"
    and "CHGNet_compute ad self g True cf cs raf rcf = Inr pred"
  shows "\<exists>apg bwa atom_feas bf anf p ms.
           compute_features self g True raf = Inr (apg, bwa, atom_feas, bf, anf, p) \<and>
           torch_bincount (atom_owners g) = Inr apg \<and>
           pred ''m'' = Some (TensorList1 ms) \<and>
           concat ms = concat (map (map abs) (nn_Linear_forward (site_wise self) atom_feas)) \<and>
           length (concat ms) = length (atom_owners g) \<and>
           length ms = length apg \<and>
           (\<forall>k<length ms. int (length (ms ! k)) = int (count_list (atom_owners g) (int k))) \<and>
           (\<forall>m\<in>set ms. \<forall>x\<in>set m. 0 \<le> x)"
proof -
  obtain apg bwa af bf anf p energy p' where
    feat: "compute_features self g True raf = Inr (apg, bwa, af, bf, anf, p)"
    and ro: "compute_readout ad self g cf cs rcf apg bwa af bf p = Inr (energy, p')"
    and pred: "pred = p'(''e'' \<mapsto> Tensor1 (if is_intensive self
                     then map2 (\<lambda>x n. x / real_of_int n) energy apg else energy))"
    using CHGNet_compute_Inr [OF assms(3)] by blast
  let ?layers = "zip (butlast (atom_conv_layers self))
                   (zip (bond_conv_layers self) (angle_layers self))"
  obtain af0 bf0 anf0 bwb where bc: "torch_bincount (atom_owners g) = Inr apg"
    and mp: "message_passing self g True raf apg bwa bwb 0 ?layers
               (af0, bf0, anf0, Map.empty(''atoms_per_graph'' \<mapsto> IntTensor apg))
             = Inr (af, bf, anf, p)"
    using compute_features_Inr [OF feat] by blast
  have len: "length ?layers = nat (n_conv self - 1)"
    using assms(1) by (simp add: layers_as_built_def)
  have l1: "int 0 + int (length ?layers) = n_conv self - 1"
    unfolding len using assms(2) by simp
  have "0 < length ?layers"
    unfolding len using assms(2) by simp
  then have l2: "?layers \<noteq> []"
    by (metis length_greater_0_conv)
  obtain ms where m: "p ''m'' = Some (TensorList1 ms)"
    and sp: "torch_split (concat (map (map abs) (nn_Linear_forward (site_wise self) af))) apg
               = Inr ms"
    using message_passing_m [OF mp l1 l2] by auto
  have pm: "pred ''m'' = Some (TensorList1 ms)"
    using compute_readout_keeps_m [OF ro] m pred by simp
  let ?mag = "concat (map (map abs) (nn_Linear_forward (site_wise self) af))"
  have c: "concat ms = ?mag" and lm: "length ms = length apg"
    and lk: "\<forall>k<length apg. int (length (ms ! k)) = apg ! k"
    and sm: "sum_list apg = int (length ?mag)"
    using torch_split_Inr [OF sp] by simp_all
  have bs: "sum_list apg = int (length (atom_owners g))"
    and bk: "\<forall>k<length apg. apg ! k = int (count_list (atom_owners g) (int k))"
    using torch_bincount_Inr_props [OF bc] by simp_all
  have tot: "length (concat ms) = length (atom_owners g)"
    using c sm bs by simp
  have per: "\<forall>k<length ms. int (length (ms ! k)) = int (count_list (atom_owners g) (int k))"
    using lk bk lm by simp
  have "\<forall>x\<in>set ?mag. 0 \<le> x"
    by auto
  then have "\<forall>x\<in>set (concat ms). 0 \<le> x"
    unfolding c .
  then have nn: "\<forall>m\<in>set ms. \<forall>x\<in>set m. 0 \<le> x"
    by auto
  show ?thesis
    using feat bc pm c tot lm per nn by blast
qed

theorem magmom_per_atom_nonneg_witness:
  "map_sum (\<lambda>e. e) (\<lambda>p. p ''m'')
     (CHGNet_compute example_autograd (example_model 2) example_batch True False False False False)
   = Inr (Some (TensorList1 [[2, 5], [91]])) \<and>
   (\<exists>pred apg ms atom_feas.
      CHGNet_compute example_autograd (example_model 2) example_batch True False False False False
        = Inr pred \<and>
      torch_bincount (atom_owners example_batch) = Inr apg \<and>
      pred ''m'' = Some (TensorList1 ms) \<and>
      concat ms = concat (map (map abs)
                    (nn_Linear_forward (site_wise (example_model 2)) atom_feas)) \<and>
      length (concat ms) = length (atom_owners example_batch) \<and>
      length ms = length apg)"
proof -
  have h1: "layers_as_built (example_model 2)"
    by (simp add: layers_as_built_def example_model_def)
  have h2: "2 \<le> n_conv (example_model 2)"
    by (simp add: example_model_def)
  have ev: "map_sum (\<lambda>e. e) (\<lambda>p. p ''m'')
     (CHGNet_compute example_autograd (example_model 2) example_batch True False False False False)
   = Inr (Some (TensorList1 [[2, 5], [91]]))"
    by (simp add: CHGNet_compute_def compute_features_def compute_readout_def readout_energy_def
        example_model_def example_batch_def torch_bincount_def AtomEmbedding_forward_def
        AtomEmbedding_init_def max_num_elements_default_def Let_def side_outputs_def
        torch_split_def nn_Linear_forward_def dot_def numeral_2_eq_2)
  then obtain pred where h3: "CHGNet_compute example_autograd (example_model 2) example_batch
      True False False False False = Inr pred"
    by (cases "CHGNet_compute example_autograd (example_model 2) example_batch
      True False False False False") auto
  show ?thesis
    using ev h3 magmom_per_atom_nonneg [OF h1 h2 h3] by blast
qed

subsection \<open>Intensive and extensive energy\<close>

lemma side_outputs_intensive [simp]:
  "side_outputs (self\<lparr>is_intensive := b\<rparr>) sw raf apg idx af p = side_outputs self sw raf apg idx af p"
  by (simp add: side_outputs_def Let_def cong: sum.case_cong if_cong)

lemma message_passing_intensive [simp]:
  "message_passing (self\<lparr>is_intensive := b\<rparr>) g sw raf apg bwa bwb idx layers st =
   message_passing self g sw raf apg bwa bwb idx layers st"
proof (induction layers arbitrary: idx st)
  case Nil
  then show ?case by simp
next
  case (Cons l layers)
  obtain atom_layer bond_layer angle_layer where l: "l = (atom_layer, bond_layer, angle_layer)"
    by (cases l) auto
  obtain af bf anf p where st: "st = (af, bf, anf, p)"
    by (cases st) auto
  show ?case
    unfolding l st by (simp add: Let_def case_prod_beta Cons.IH cong: sum.case_cong)
qed

lemma compute_features_intensive [simp]:
  "compute_features (self\<lparr>is_intensive := b\<rparr>) g sw raf = compute_features self g sw raf"
  by (simp add: compute_features_def Let_def cong: sum.case_cong if_cong)

lemma readout_energy_intensive [simp]:
  "readout_energy (self\<lparr>is_intensive := b\<rparr>) g rcf apg af p = readout_energy self g rcf apg af p"
  by (simp add: readout_energy_def Let_def cong: if_cong)

lemma compute_readout_intensive [simp]:
  "compute_readout ad (self\<lparr>is_intensive := b\<rparr>) g cf cs rcf apg bwa af bf p =
   compute_readout ad self g cf cs rcf apg bwa af bf p"
  by (simp add: compute_readout_def Let_def cong: sum.case_cong list.case_cong option.case_cong if_cong)

lemma CHGNet_compute_intensive:
  "CHGNet_compute ad (self\<lparr>is_intensive := b\<rparr>) g sw cf cs raf rcf =
     (case compute_features self g sw raf of
        Inl e \<Rightarrow> Inl e
      | Inr (apg, bwa, af, bf, anf, p) \<Rightarrow>
         (case compute_readout ad self g cf cs rcf apg bwa af bf p of
            Inl e \<Rightarrow> Inl e
          | Inr (energy, p') \<Rightarrow>
              Inr (p'(''e'' \<mapsto> Tensor1 (if b then map2 (\<lambda>x n. x / real_of_int n) energy apg
                                        else energy)))))"
  by (simp add: CHGNet_compute_def Let_def cong: sum.case_cong prod.case_cong)

text \<open>
  Claim C5. Take a model and the same model with the other setting of
  \<open>is_intensive\<close>, everything else fixed. Whenever the extensive model returns a
  prediction with energies \<open>energy\<close>, the intensive model returns the same prediction
  (the same forces, stress, moments and features) except that entry \<open>k\<close> of the energy
  is \<open>energy ! k\<close> divided by the atom count of structure \<open>k\<close>: the division comes
  after pooling, projection and the derivatives, and nothing before it reads the flag.
\<close>

theorem intensive_energy_divides_last:
  assumes "CHGNet_compute ad (self\<lparr>is_intensive := False\<rparr>) g sw cf cs raf rcf = Inr pe"
  shows "\<exists>apg energy.
           torch_bincount (atom_owners g) = Inr apg \<and>
           (\<forall>k<length apg. apg ! k = int (count_list (atom_owners g) (int k))) \<and>
           pe ''e'' = Some (Tensor1 energy) \<and>
           CHGNet_compute ad (self\<lparr>is_intensive := True\<rparr>) g sw cf cs raf rcf =
             Inr (pe(''e'' \<mapsto> Tensor1 (map2 (\<lambda>x n. x / real_of_int n) energy apg))) \<and>
           (\<forall>k<min (length energy) (length apg).
              map2 (\<lambda>x n. x / real_of_int n) energy apg ! k = energy ! k / real_of_int (apg ! k))"
proof -
  obtain apg bwa af bf anf p where
    feat: "compute_features self g sw raf = Inr (apg, bwa, af, bf, anf, p)"
    using assms
    by (cases "compute_features self g sw raf") (auto simp: CHGNet_compute_intensive)
  obtain energy p' where
    ro: "compute_readout ad self g cf cs rcf apg bwa af bf p = Inr (energy, p')"
    using assms
    by (cases "compute_readout ad self g cf cs rcf apg bwa af bf p")
       (auto simp: CHGNet_compute_intensive feat)
  have pe: "pe = p'(''e'' \<mapsto> Tensor1 energy)"
    using assms by (simp add: CHGNet_compute_intensive feat ro)
  have bc: "torch_bincount (atom_owners g) = Inr apg"
    using compute_features_Inr [OF feat] by blast
  have bk: "\<forall>k<length apg. apg ! k = int (count_list (atom_owners g) (int k))"
    using torch_bincount_Inr_props [OF bc] by blast
  have int: "CHGNet_compute ad (self\<lparr>is_intensive := True\<rparr>) g sw cf cs raf rcf =
             Inr (pe(''e'' \<mapsto> Tensor1 (map2 (\<lambda>x n. x / real_of_int n) energy apg)))"
    by (simp add: CHGNet_compute_intensive feat ro pe)
  have e: "pe ''e'' = Some (Tensor1 energy)"
    unfolding pe by simp
  have nth: "\<forall>k<min (length energy) (length apg).
              map2 (\<lambda>x n. x / real_of_int n) energy apg ! k = energy ! k / real_of_int (apg ! k)"
    by simp
  show ?thesis
    using bc bk e int nth by blast
qed

theorem intensive_energy_divides_last_witness:
  "CHGNet_compute example_autograd ((example_model 2)\<lparr>is_intensive := False\<rparr>) example_batch
     True True True False False =
   Inr (Map.empty(''atoms_per_graph'' \<mapsto> IntTensor [2, 1],
          ''m'' \<mapsto> TensorList1 [[2, 5], [91]],
          ''f'' \<mapsto> TensorList2 [[[- 1, - 1, - 1], [- 2, - 2, - 2]], [[- 1, - 1, - 1]]],
          ''s'' \<mapsto> TensorList2 (map2 (\<lambda>i j. map (map (\<lambda>x. x * j)) i)
                   [[[1, 1, 1], [1, 1, 1], [1, 1, 1]], [[1, 1, 1], [1, 1, 1], [1, 1, 1]]]
                   [1 / 27 * 160.21766208, 1 / 8 * 160.21766208]),
          ''e'' \<mapsto> Tensor1 [- 2, 89])) \<and>
   (\<exists>pe apg energy.
      torch_bincount (atom_owners example_batch) = Inr apg \<and>
      pe ''e'' = Some (Tensor1 energy) \<and>
      CHGNet_compute example_autograd ((example_model 2)\<lparr>is_intensive := True\<rparr>) example_batch
        True True True False False =
        Inr (pe(''e'' \<mapsto> Tensor1 (map2 (\<lambda>x n. x / real_of_int n) energy apg))))"
proof -
  have ev: "CHGNet_compute example_autograd ((example_model 2)\<lparr>is_intensive := False\<rparr>) example_batch
     True True True False False =
   Inr (Map.empty(''atoms_per_graph'' \<mapsto> IntTensor [2, 1],
          ''m'' \<mapsto> TensorList1 [[2, 5], [91]],
          ''f'' \<mapsto> TensorList2 [[[- 1, - 1, - 1], [- 2, - 2, - 2]], [[- 1, - 1, - 1]]],
          ''s'' \<mapsto> TensorList2 (map2 (\<lambda>i j. map (map (\<lambda>x. x * j)) i)
                   [[[1, 1, 1], [1, 1, 1], [1, 1, 1]], [[1, 1, 1], [1, 1, 1], [1, 1, 1]]]
                   [1 / 27 * 160.21766208, 1 / 8 * 160.21766208]),
          ''e'' \<mapsto> Tensor1 [- 2, 89]))"
    by (simp add: CHGNet_compute_def compute_features_def compute_readout_def readout_energy_def
        example_model_def example_batch_def torch_bincount_def AtomEmbedding_forward_def
        AtomEmbedding_init_def max_num_elements_default_def Let_def side_outputs_def
        torch_split_def nn_Linear_forward_def dot_def numeral_2_eq_2
        compute_force_part_def compute_stress_part_def example_autograd_def zeros3_def)
  show ?thesis
    using ev intensive_energy_divides_last [OF ev] by blast
qed

subsection \<open>Forces and stress\<close>

lemma from_graphs_angles_geometry:
  assumes "from_graphs_angles abe g bv s = Inr s'"
  shows "l_strains s' = l_strains s \<and> l_volumes s' = l_volumes s \<and>
         l_atom_positions s' = l_atom_positions s"
  using assms by (auto simp: from_graphs_angles_def split: if_splits sum.splits)

lemma from_graphs_step_geometry:
  assumes "from_graphs_step bbe abe cs idx g s = Inr s'"
  shows "l_strains s' = l_strains s @ [if cs then Some zeros3 else None] \<and>
         l_volumes s' = l_volumes s @
           [det3 (if cs then mat_mul (lattice g) (mat_add eye3 zeros3) else lattice g)] \<and>
         l_atom_positions s' = l_atom_positions s @
           [mat_mul (atom_frac_coord g)
              (if cs then mat_mul (lattice g) (mat_add eye3 zeros3) else lattice g)]"
proof -
  define lat where "lat = (if cs then mat_mul (lattice g) (mat_add eye3 zeros3) else lattice g)"
  define pos where "pos = mat_mul (atom_frac_coord g) lat"
  obtain center where c: "tensor_getitem pos (map fst (atom_graph g)) = Inr center"
    using assms unfolding pos_def lat_def
    by (cases "tensor_getitem (mat_mul (atom_frac_coord g)
           (if cs then mat_mul (lattice g) (mat_add eye3 zeros3) else lattice g))
           (map fst (atom_graph g))")
       (auto simp: from_graphs_step_def Let_def)
  obtain neighbor where n: "tensor_getitem pos (map snd (atom_graph g)) = Inr neighbor"
    using assms c unfolding pos_def lat_def
    by (cases "tensor_getitem (mat_mul (atom_frac_coord g)
           (if cs then mat_mul (lattice g) (mat_add eye3 zeros3) else lattice g))
           (map snd (atom_graph g))")
       (auto simp: from_graphs_step_def Let_def)
  obtain bag bbg bv where
    b: "bbe center neighbor (undirected2directed g) (neighbor_image g) lat = Inr (bag, bbg, bv)"
    using assms c n unfolding pos_def lat_def
    by (cases "bbe center neighbor (undirected2directed g) (neighbor_image g)
           (if cs then mat_mul (lattice g) (mat_add eye3 zeros3) else lattice g)")
       (auto simp: from_graphs_step_def Let_def)
  define s1 where "s1 =
    s\<lparr>l_atomic_numbers := l_atomic_numbers s @ [atomic_number g],
      l_volumes := l_volumes s @ [det3 lat],
      l_strains := l_strains s @ [if cs then Some zeros3 else None],
      l_atom_positions := l_atom_positions s @ [pos],
      l_bond_bases_ag := l_bond_bases_ag s @ [bag],
      l_bond_bases_bg := l_bond_bases_bg s @ [bbg],
      l_batched_atom_graph := l_batched_atom_graph s @
        [map (\<lambda>(a, b). (a + atom_offset_idx s, b + atom_offset_idx s)) (atom_graph g)],
      l_directed2undirected := l_directed2undirected s @
        [map (\<lambda>i. i + n_undirected s) (Crystal_Graph.directed2undirected g)]\<rparr>"
  have eq: "from_graphs_step bbe abe cs idx g s =
      (case from_graphs_angles abe g bv s1 of
         Inl e \<Rightarrow> Inl e
       | Inr s2 \<Rightarrow>
           Inr (s2\<lparr>l_atom_owners := l_atom_owners s2 @ [replicate (length (atomic_number g)) (int idx)],
                   atom_offset_idx := atom_offset_idx s2 + int (length (atomic_number g)),
                   n_undirected := n_undirected s2 + int (length bag)\<rparr>))"
    using c n b
    by (simp add: from_graphs_step_def Let_def lat_def [symmetric] pos_def [symmetric]
        s1_def [symmetric])
  obtain s2 where a: "from_graphs_angles abe g bv s1 = Inr s2"
    using assms unfolding eq by (cases "from_graphs_angles abe g bv s1") auto
  have s': "s' = s2\<lparr>l_atom_owners := l_atom_owners s2 @ [replicate (length (atomic_number g)) (int idx)],
                   atom_offset_idx := atom_offset_idx s2 + int (length (atomic_number g)),
                   n_undirected := n_undirected s2 + int (length bag)\<rparr>"
    using assms by (simp add: eq a)
  show ?thesis
    using from_graphs_angles_geometry [OF a]
    by (simp add: s' s1_def lat_def pos_def)
qed

lemma from_graphs_loop_geometry:
  assumes "from_graphs_loop bbe abe cs idx gs s = Inr s'"
  shows "l_strains s' = l_strains s @ map (\<lambda>g. if cs then Some zeros3 else None) gs \<and>
         l_volumes s' = l_volumes s @
           map (\<lambda>g. det3 (if cs then mat_mul (lattice g) (mat_add eye3 zeros3) else lattice g)) gs \<and>
         l_atom_positions s' = l_atom_positions s @
           map (\<lambda>g. mat_mul (atom_frac_coord g)
                  (if cs then mat_mul (lattice g) (mat_add eye3 zeros3) else lattice g)) gs"
  using assms
proof (induction gs arbitrary: idx s)
  case Nil
  then show ?case by simp
next
  case (Cons g gs)
  obtain s1 where st: "from_graphs_step bbe abe cs idx g s = Inr s1"
    using Cons.prems by (cases "from_graphs_step bbe abe cs idx g s") auto
  then have lp: "from_graphs_loop bbe abe cs (Suc idx) gs s1 = Inr s'"
    using Cons.prems by simp
  show ?case
    using Cons.IH [OF lp] from_graphs_step_geometry [OF st] by simp
qed

lemma from_graphs_geometry:
  assumes "from_graphs bbe abe cs graphs = Inr bg"
  shows "strains bg = map (\<lambda>g. if cs then Some zeros3 else None) graphs \<and>
         volumes bg =
           map (\<lambda>g. det3 (if cs then mat_mul (lattice g) (mat_add eye3 zeros3) else lattice g)) graphs \<and>
         atom_positions bg =
           map (\<lambda>g. mat_mul (atom_frac_coord g)
                  (if cs then mat_mul (lattice g) (mat_add eye3 zeros3) else lattice g)) graphs"
proof -
  obtain s where lp: "from_graphs_loop bbe abe cs 0 graphs from_graphs_init = Inr s"
    using assms by (cases "from_graphs_loop bbe abe cs 0 graphs from_graphs_init")
      (auto simp: from_graphs_def)
  have "strains bg = l_strains s" "volumes bg = l_volumes s" "atom_positions bg = l_atom_positions s"
    using assms lp by (auto simp: from_graphs_def split: if_splits)
  then show ?thesis
    using from_graphs_loop_geometry [OF lp] by (simp add: from_graphs_init_def)
qed

lemma forward_Inr:
  assumes "forward ad self graphs task raf rcf = Inr pred"
  shows "\<exists>bg pc energy.
           from_graphs (BondEncoder_forward (bond_basis_expansion self))
             (AngleEncoder_forward (angle_basis_expansion self)) (CHR ''s'' \<in> set task) graphs = Inr bg \<and>
           CHGNet_compute ad self bg (CHR ''m'' \<in> set task) (CHR ''f'' \<in> set task)
             (CHR ''s'' \<in> set task) raf rcf = Inr pc \<and>
           (\<forall>k. k \<noteq> ''e'' \<longrightarrow> pred k = pc k)"
proof -
  let ?fg = "from_graphs (BondEncoder_forward (bond_basis_expansion self))
             (AngleEncoder_forward (angle_basis_expansion self)) (CHR ''s'' \<in> set task) graphs"
  obtain bg where bg: "?fg = Inr bg"
    using assms by (cases ?fg) (auto simp: forward_def Let_def)
  let ?c = "CHGNet_compute ad self bg (CHR ''m'' \<in> set task) (CHR ''f'' \<in> set task)
             (CHR ''s'' \<in> set task) raf rcf"
  obtain pc where pc: "?c = Inr pc"
    using assms bg by (cases ?c) (auto simp: forward_def Let_def)
  have "\<forall>k. k \<noteq> ''e'' \<longrightarrow> pred k = pc k"
    using assms bg pc
    by (auto simp: forward_def Let_def split: option.splits pvalue.splits)
  with bg pc show ?thesis
    by blast
qed


lemma those_map_Some: "those (map Some xs) = Some xs"
  by (induction xs) simp_all

lemma compute_readout_stress:
  assumes "compute_readout ad self g cf True rcf apg bwa af bf p = Inr (energy, p')"
  shows "\<exists>strains' grads. those (strains g) = Some strains' \<and>
           ad (sum_list energy) strains' = Inr grads \<and>
           p' ''s'' = Some (TensorList2
                  (map2 (\<lambda>i j. map (map (\<lambda>x. x * j)) i) grads
                     (map (\<lambda>v. 1 / v * 160.21766208) (volumes g))))"
proof -
  obtain af' p0 p1 where
    st: "(if True then compute_stress_part ad g energy p1 else Inr p1) = Inr p'"
    using compute_readout_Inr [OF assms] by blast
  then have "compute_stress_part ad g energy p1 = Inr p'"
    by simp
  from compute_stress_part_Inr [OF this] show ?thesis
    by auto
qed

lemma compute_readout_force:
  assumes "compute_readout ad self g True cs rcf apg bwa af bf p = Inr (energy, p')"
  shows "\<exists>grads. ad (sum_list energy) (atom_positions g) = Inr grads \<and>
           p' ''f'' = Some (TensorList2 (map (\<lambda>i. map (map (\<lambda>x. - 1 * x)) i) grads))"
proof -
  obtain af' p0 p1 where
    f: "(if True then compute_force_part ad g energy p0 else Inr p0) = Inr p1"
    and st: "(if cs then compute_stress_part ad g energy p1 else Inr p1) = Inr p'"
    using compute_readout_Inr [OF assms] by blast
  from f have "compute_force_part ad g energy p0 = Inr p1"
    by simp
  from compute_force_part_Inr [OF this] obtain grads where
    g: "ad (sum_list energy) (atom_positions g) = Inr grads"
    and p1: "p1 ''f'' = Some (TensorList2 (map (\<lambda>i. map (map (\<lambda>x. - 1 * x)) i) grads))"
    by auto
  have "p' ''f'' = p1 ''f''"
    using st compute_stress_part_Inr [of ad g energy p1 p'] by (cases cs) auto
  with g p1 show ?thesis
    by auto
qed

text \<open>
  Claim C2. Whenever the task requests the stress and \<open>forward\<close> returns, the batch was
  built with one zero strain variable per structure, the differentiation engine was
  asked for the gradient of the summed energy of the batch by these strain variables,
  and the stress of structure \<open>k\<close> is that gradient, entry by entry, divided by the
  volume of structure \<open>k\<close> (the determinant of its strained lattice) and multiplied
  by \<open>160.21766208\<close>.
\<close>

theorem stress_is_scaled_strain_gradient:
  assumes "forward ad self graphs task raf rcf = Inr pred" and "CHR ''s'' \<in> set task"
  shows "\<exists>bg apg bwa af bf anf p energy p' grads ss.
           from_graphs (BondEncoder_forward (bond_basis_expansion self))
             (AngleEncoder_forward (angle_basis_expansion self)) True graphs = Inr bg \<and>
           strains bg = map (\<lambda>g. Some zeros3) graphs \<and>
           volumes bg = map (\<lambda>g. det3 (mat_mul (lattice g) (mat_add eye3 zeros3))) graphs \<and>
           compute_features self bg (CHR ''m'' \<in> set task) raf = Inr (apg, bwa, af, bf, anf, p) \<and>
           compute_readout ad self bg (CHR ''f'' \<in> set task) True rcf apg bwa af bf p
             = Inr (energy, p') \<and>
           ad (sum_list energy) (map (\<lambda>g. zeros3) graphs) = Inr grads \<and>
           pred ''s'' = Some (TensorList2 ss) \<and>
           length ss = min (length grads) (length graphs) \<and>
           (\<forall>k<length ss.
              ss ! k = map (map (\<lambda>x. x / (volumes bg ! k) * 160.21766208)) (grads ! k))"
proof -
  obtain bg pc where
    bg: "from_graphs (BondEncoder_forward (bond_basis_expansion self))
           (AngleEncoder_forward (angle_basis_expansion self)) True graphs = Inr bg"
    and pc: "CHGNet_compute ad self bg (CHR ''m'' \<in> set task) (CHR ''f'' \<in> set task)
               True raf rcf = Inr pc"
    and keep: "\<forall>k. k \<noteq> ''e'' \<longrightarrow> pred k = pc k"
    using forward_Inr [OF assms(1)] assms(2) by auto
  obtain apg bwa af bf anf p energy p' where
    feat: "compute_features self bg (CHR ''m'' \<in> set task) raf = Inr (apg, bwa, af, bf, anf, p)"
    and ro: "compute_readout ad self bg (CHR ''f'' \<in> set task) True rcf apg bwa af bf p
               = Inr (energy, p')"
    and pcd: "pc = p'(''e'' \<mapsto> Tensor1 (if is_intensive self
                     then map2 (\<lambda>x n. x / real_of_int n) energy apg else energy))"
    using CHGNet_compute_Inr [OF pc] by blast
  have geo: "strains bg = map (\<lambda>g. Some zeros3) graphs"
    "volumes bg = map (\<lambda>g. det3 (mat_mul (lattice g) (mat_add eye3 zeros3))) graphs"
    using from_graphs_geometry [OF bg] by simp_all
  have "strains bg = map Some (map (\<lambda>g. zeros3) graphs)"
    using geo(1) by simp
  then have th: "those (strains bg) = Some (map (\<lambda>g. zeros3) graphs)"
    by (simp only: those_map_Some)
  obtain grads where ad: "ad (sum_list energy) (map (\<lambda>g. zeros3) graphs) = Inr grads"
    and ps: "p' ''s'' = Some (TensorList2
                  (map2 (\<lambda>i j. map (map (\<lambda>x. x * j)) i) grads
                     (map (\<lambda>v. 1 / v * 160.21766208) (volumes bg))))"
    using compute_readout_stress [OF ro] th by auto
  define ss where "ss = map2 (\<lambda>i j. map (map (\<lambda>x. x * j)) i) grads
                     (map (\<lambda>v. 1 / v * 160.21766208) (volumes bg))"
  have s: "pred ''s'' = Some (TensorList2 ss)"
    using keep ps pcd by (simp add: ss_def)
  have len: "length ss = min (length grads) (length graphs)"
    by (simp add: ss_def geo(2))
  have nth: "\<forall>k<length ss.
              ss ! k = map (map (\<lambda>x. x / (volumes bg ! k) * 160.21766208)) (grads ! k)"
  proof (intro allI impI)
    fix k
    assume "k < length ss"
    then have k: "k < length grads" "k < length (volumes bg)"
      by (simp_all add: ss_def)
    then have "ss ! k = map (map (\<lambda>x. x * (1 / (volumes bg ! k) * 160.21766208))) (grads ! k)"
      by (simp add: ss_def)
    then show "ss ! k = map (map (\<lambda>x. x / (volumes bg ! k) * 160.21766208)) (grads ! k)"
      by simp
  qed
  show ?thesis
    using bg geo feat ro ad s len nth by blast
qed

text \<open>
  Claim C1. Whenever the task requests forces and \<open>forward\<close> returns, the position
  tensors of the batch are the fractional coordinates of each structure times its
  (possibly strained) lattice, as the batcher built them, the differentiation engine
  was asked for the gradient of the summed energy of the batch by these position
  tensors, and the force tensor of structure \<open>k\<close> is the negated gradient for the
  position tensor of structure \<open>k\<close>.
\<close>

theorem force_is_negative_position_gradient:
  assumes "forward ad self graphs task raf rcf = Inr pred" and "CHR ''f'' \<in> set task"
  shows "\<exists>bg apg bwa af bf anf p energy p' grads fs.
           from_graphs (BondEncoder_forward (bond_basis_expansion self))
             (AngleEncoder_forward (angle_basis_expansion self)) (CHR ''s'' \<in> set task) graphs
             = Inr bg \<and>
           atom_positions bg =
             map (\<lambda>g. mat_mul (atom_frac_coord g)
                    (if CHR ''s'' \<in> set task then mat_mul (lattice g) (mat_add eye3 zeros3)
                     else lattice g)) graphs \<and>
           compute_features self bg (CHR ''m'' \<in> set task) raf = Inr (apg, bwa, af, bf, anf, p) \<and>
           compute_readout ad self bg True (CHR ''s'' \<in> set task) rcf apg bwa af bf p
             = Inr (energy, p') \<and>
           ad (sum_list energy) (atom_positions bg) = Inr grads \<and>
           pred ''f'' = Some (TensorList2 fs) \<and>
           length fs = length grads \<and>
           (\<forall>k<length fs. fs ! k = map (map (\<lambda>x. - x)) (grads ! k))"
proof -
  obtain bg pc where
    bg: "from_graphs (BondEncoder_forward (bond_basis_expansion self))
           (AngleEncoder_forward (angle_basis_expansion self)) (CHR ''s'' \<in> set task) graphs = Inr bg"
    and pc: "CHGNet_compute ad self bg (CHR ''m'' \<in> set task) True
               (CHR ''s'' \<in> set task) raf rcf = Inr pc"
    and keep: "\<forall>k. k \<noteq> ''e'' \<longrightarrow> pred k = pc k"
    using forward_Inr [OF assms(1)] assms(2) by auto
  obtain apg bwa af bf anf p energy p' where
    feat: "compute_features self bg (CHR ''m'' \<in> set task) raf = Inr (apg, bwa, af, bf, anf, p)"
    and ro: "compute_readout ad self bg True (CHR ''s'' \<in> set task) rcf apg bwa af bf p
               = Inr (energy, p')"
    and pcd: "pc = p'(''e'' \<mapsto> Tensor1 (if is_intensive self
                     then map2 (\<lambda>x n. x / real_of_int n) energy apg else energy))"
    using CHGNet_compute_Inr [OF pc] by blast
  have geo: "atom_positions bg =
             map (\<lambda>g. mat_mul (atom_frac_coord g)
                    (if CHR ''s'' \<in> set task then mat_mul (lattice g) (mat_add eye3 zeros3)
                     else lattice g)) graphs"
    using from_graphs_geometry [OF bg] by simp
  obtain grads where ad: "ad (sum_list energy) (atom_positions bg) = Inr grads"
    and pf: "p' ''f'' = Some (TensorList2 (map (\<lambda>i. map (map (\<lambda>x. - 1 * x)) i) grads))"
    using compute_readout_force [OF ro] by auto
  define fs where "fs = map (\<lambda>i. map (map (\<lambda>x. - 1 * x)) i) grads"
  have f: "pred ''f'' = Some (TensorList2 fs)"
    using keep pf pcd by (simp add: fs_def)
  have len: "length fs = length grads"
    by (simp add: fs_def)
  have nth: "\<forall>k<length fs. fs ! k = map (map (\<lambda>x. - x)) (grads ! k)"
    by (simp add: fs_def)
  show ?thesis
    using bg geo feat ro ad f len nth by blast
qed


lemma forward_example:
  "forward example_autograd (example_model 2) example_graphs ''efsm'' False False =
   Inr (Map.empty(''atoms_per_graph'' \<mapsto> IntTensor [2, 1],
          ''m'' \<mapsto> TensorList1 [[2, 5], [91]],
          ''f'' \<mapsto> TensorList2 [[[- 1, - 1, - 1], [- 2, - 2, - 2]], [[- 1, - 1, - 1]]],
          ''s'' \<mapsto> TensorList2
                   [map (map (\<lambda>x. x / 27 * 160.21766208)) [[1, 1, 1], [1, 1, 1], [1, 1, 1]],
                    map (map (\<lambda>x. x / 8 * 160.21766208)) [[1, 1, 1], [1, 1, 1], [1, 1, 1]]],
          ''e'' \<mapsto> Tensor1 [- 1, 89]))"
  by (simp add: forward_def from_graphs_def from_graphs_step_def from_graphs_angles_def
      from_graphs_init_def BondEncoder_forward_def tensor_getitem_def index_select_def
      CHGNet_compute_def compute_features_def compute_readout_def readout_energy_def
      example_model_def example_graphs_def torch_bincount_def AtomEmbedding_forward_def
      AtomEmbedding_init_def max_num_elements_default_def Let_def side_outputs_def
      torch_split_def nn_Linear_forward_def dot_def numeral_2_eq_2
      compute_force_part_def compute_stress_part_def example_autograd_def zeros3_def
      eye3_def mat_mul_def mat_add_def vec_add_def det3_def)


theorem stress_is_scaled_strain_gradient_witness:
  "\<exists>pred bg energy grads ss.
     forward example_autograd (example_model 2) example_graphs ''efsm'' False False = Inr pred \<and>
     from_graphs (BondEncoder_forward (bond_basis_expansion (example_model 2)))
       (AngleEncoder_forward (angle_basis_expansion (example_model 2))) True example_graphs = Inr bg \<and>
     volumes bg = map (\<lambda>g. det3 (mat_mul (lattice g) (mat_add eye3 zeros3))) example_graphs \<and>
     example_autograd (sum_list energy) (map (\<lambda>g. zeros3) example_graphs) = Inr grads \<and>
     pred ''s'' = Some (TensorList2 ss) \<and>
     length ss = min (length grads) (length example_graphs)"
proof -
  have h: "CHR ''s'' \<in> set ''efsm''"
    by simp
  show ?thesis
    using forward_example stress_is_scaled_strain_gradient [OF forward_example h] by blast
qed

theorem force_is_negative_position_gradient_witness:
  "\<exists>pred bg energy grads fs.
     forward example_autograd (example_model 2) example_graphs ''efsm'' False False = Inr pred \<and>
     from_graphs (BondEncoder_forward (bond_basis_expansion (example_model 2)))
       (AngleEncoder_forward (angle_basis_expansion (example_model 2)))
       (CHR ''s'' \<in> set ''efsm'') example_graphs = Inr bg \<and>
     example_autograd (sum_list energy) (atom_positions bg) = Inr grads \<and>
     pred ''f'' = Some (TensorList2 fs) \<and>
     length fs = length grads"
proof -
  have h: "CHR ''f'' \<in> set ''efsm''"
    by simp
  show ?thesis
    using forward_example force_is_negative_position_gradient [OF forward_example h] by blast
qed

end
